theory Spec2Isabelle
  imports Complex_Main
begin

section \<open>Python values of the raw configuration\<close>

text \<open>
  \<open>mw.addonManager.getConfig\<close> returns what the JSON file of the add-on holds: \<open>None\<close>,
  a bool, an int, a float, a string, a list or a dict. A dict is an association list
  (a lookup takes the first binding of a key). A float is a real number or one of the
  three special values; the rounding of binary floating point is not part of the model.
\<close>

datatype pyfloat = Finite real | PosInf | NegInf | NaN

datatype pyval =
    PNone
  | PBool bool
  | PInt int
  | PFloat pyfloat
  | PStr string
  | PList "pyval list"
  | PDict "(string \<times> pyval) list"

text \<open>\<open>d.get(k, default)\<close>\<close>

definition dict_get :: "(string \<times> pyval) list \<Rightarrow> string \<Rightarrow> pyval \<Rightarrow> pyval" where
  "dict_get kvs k d = (case map_of kvs k of Some v \<Rightarrow> v | None \<Rightarrow> d)"

subsection \<open>Number literals in strings\<close>

text \<open>
  \<open>int(s)\<close> and \<open>float(s)\<close> strip white space, read an optional sign and then digits,
  where one underscore may stand between two digits. Characters are the ASCII ones:
  the white space and the digits of Unicode beyond them are not modelled.
\<close>

definition is_space :: "char \<Rightarrow> bool" where
  "is_space c = (c \<in> set [CHR 0x09, CHR 0x0A, CHR 0x0B, CHR 0x0C, CHR 0x0D,
                            CHR 0x1C, CHR 0x1D, CHR 0x1E, CHR 0x1F, CHR 0x20])"

definition strip :: "string \<Rightarrow> string" where
  "strip s = rev (dropWhile is_space (rev (dropWhile is_space s)))"

definition digit_val :: "char \<Rightarrow> nat option" where
  "digit_val c = map_of [(CHR ''0'', 0), (CHR ''1'', 1), (CHR ''2'', 2), (CHR ''3'', 3),
                         (CHR ''4'', 4), (CHR ''5'', 5), (CHR ''6'', 6), (CHR ''7'', 7),
                         (CHR ''8'', 8), (CHR ''9'', 9)] c"

text \<open>The digits after the first one: \<open>(["_"] digit)*\<close>.\<close>

fun digits_rest :: "string \<Rightarrow> nat list \<Rightarrow> nat list option" where
  "digits_rest [] acc = Some acc"
| "digits_rest (c # cs) acc =
     (case digit_val c of
        Some d \<Rightarrow> digits_rest cs (acc @ [d])
      | None \<Rightarrow>
          if c = CHR ''_'' then
            (case cs of
               [] \<Rightarrow> None
             | c' # cs' \<Rightarrow>
                 (case digit_val c' of
                    Some d \<Rightarrow> digits_rest cs' (acc @ [d])
                  | None \<Rightarrow> None))
          else None)"

text \<open>\<open>digitpart ::= digit (["_"] digit)*\<close>\<close>

definition digitpart :: "string \<Rightarrow> nat list option" where
  "digitpart s =
     (case s of
        [] \<Rightarrow> None
      | c # cs \<Rightarrow> (case digit_val c of Some d \<Rightarrow> digits_rest cs [d] | None \<Rightarrow> None))"

definition digits_value :: "nat list \<Rightarrow> nat" where
  "digits_value ds = foldl (\<lambda>a d. 10 * a + d) 0 ds"

text \<open>An optional sign: the factor and the rest of the string.\<close>

definition split_sign :: "string \<Rightarrow> int \<times> string" where
  "split_sign s =
     (case s of
        [] \<Rightarrow> (1, [])
      | c # cs \<Rightarrow> if c = CHR ''-'' then (-1, cs) else if c = CHR ''+'' then (1, cs) else (1, s))"

text \<open>\<open>int(s)\<close> for a string, base ten; \<open>None\<close> is the \<open>ValueError\<close>.\<close>

definition int_of_str :: "string \<Rightarrow> int option" where
  "int_of_str s =
     (let (sgn, body) = split_sign (strip s)
      in case digitpart body of
           None \<Rightarrow> None
         | Some ds \<Rightarrow> Some (sgn * int (digits_value ds)))"

definition lower_char :: "char \<Rightarrow> char" where
  "lower_char c =
     (let n = (of_char c :: nat) in if 65 \<le> n \<and> n \<le> 90 then char_of (n + 32) else c)"

text \<open>The part before and the part after the first character that satisfies \<open>P\<close>.\<close>

definition split_at :: "(char \<Rightarrow> bool) \<Rightarrow> string \<Rightarrow> string \<times> string option" where
  "split_at P s =
     (case dropWhile (\<lambda>c. \<not> P c) s of
        [] \<Rightarrow> (s, None)
      | _ # r \<Rightarrow> (takeWhile (\<lambda>c. \<not> P c) s, Some r))"

text \<open>
  The mantissa \<open>digitpart ["." [digitpart]] | "." digitpart\<close>: its digits before and
  after the point.
\<close>

definition mantissa :: "string \<Rightarrow> (nat list \<times> nat list) option" where
  "mantissa s =
     (case split_at (\<lambda>c. c = CHR ''.'') s of
        (ip, None) \<Rightarrow> (case digitpart ip of Some ds \<Rightarrow> Some (ds, []) | None \<Rightarrow> None)
      | (ip, Some fp) \<Rightarrow>
          if ip = [] then (case digitpart fp of Some fs \<Rightarrow> Some ([], fs) | None \<Rightarrow> None)
          else
            (case digitpart ip of
               None \<Rightarrow> None
             | Some ds \<Rightarrow>
                 if fp = [] then Some (ds, [])
                 else (case digitpart fp of Some fs \<Rightarrow> Some (ds, fs) | None \<Rightarrow> None)))"

text \<open>The exponent \<open>[sign] digitpart\<close>.\<close>

definition exponent :: "string \<Rightarrow> int option" where
  "exponent s =
     (let (sgn, body) = split_sign s
      in case digitpart body of
           None \<Rightarrow> None
         | Some ds \<Rightarrow> Some (sgn * int (digits_value ds)))"

definition scale10 :: "real \<Rightarrow> int \<Rightarrow> real" where
  "scale10 x e = (if 0 \<le> e then x * 10 ^ nat e else x / 10 ^ nat (- e))"

text \<open>\<open>float(s)\<close> for a string; \<open>None\<close> is the \<open>ValueError\<close>.\<close>

definition float_of_str :: "string \<Rightarrow> pyfloat option" where
  "float_of_str s =
     (let (sgn, body) = split_sign (strip s);
          word = map lower_char body
      in if word = ''inf'' \<or> word = ''infinity'' then Some (if sgn < 0 then NegInf else PosInf)
         else if word = ''nan'' then Some NaN
         else
           (case split_at (\<lambda>c. c = CHR ''e'' \<or> c = CHR ''E'') body of
              (m, None) \<Rightarrow>
                (case mantissa m of
                   None \<Rightarrow> None
                 | Some (ds, fs) \<Rightarrow>
                     Some (Finite (scale10 (of_int sgn * of_nat (digits_value (ds @ fs)))
                                           (- int (length fs)))))
            | (m, Some ex) \<Rightarrow>
                (case mantissa m of
                   None \<Rightarrow> None
                 | Some (ds, fs) \<Rightarrow>
                     (case exponent ex of
                        None \<Rightarrow> None
                      | Some e \<Rightarrow>
                          Some (Finite (scale10 (of_int sgn * of_nat (digits_value (ds @ fs)))
                                                (e - int (length fs))))))))"

subsection \<open>The builtins \<open>int\<close>, \<open>float\<close>, \<open>bool\<close> and \<open>str\<close>\<close>

text \<open>
  \<open>None\<close> is the exception the builtin raises (\<open>TypeError\<close>, \<open>ValueError\<close> or
  \<open>OverflowError\<close>); \<open>load_config\<close> catches them all alike. The conversion of an
  int to a float is exact here: the rounding of an int beyond 53 bits, and the
  \<open>OverflowError\<close> for an int beyond the range of a double, are not modelled.
\<close>

fun py_int :: "pyval \<Rightarrow> int option" where
  "py_int PNone = None"
| "py_int (PBool b) = Some (if b then 1 else 0)"
| "py_int (PInt n) = Some n"
| "py_int (PFloat (Finite r)) = Some (if 0 \<le> r then \<lfloor>r\<rfloor> else \<lceil>r\<rceil>)"
| "py_int (PFloat PosInf) = None"
| "py_int (PFloat NegInf) = None"
| "py_int (PFloat NaN) = None"
| "py_int (PStr s) = int_of_str s"
| "py_int (PList xs) = None"
| "py_int (PDict kvs) = None"

fun py_float :: "pyval \<Rightarrow> pyfloat option" where
  "py_float PNone = None"
| "py_float (PBool b) = Some (Finite (if b then 1 else 0))"
| "py_float (PInt n) = Some (Finite (of_int n))"
| "py_float (PFloat f) = Some f"
| "py_float (PStr s) = float_of_str s"
| "py_float (PList xs) = None"
| "py_float (PDict kvs) = None"

text \<open>Truth value testing.\<close>

fun py_bool :: "pyval \<Rightarrow> bool" where
  "py_bool PNone = False"
| "py_bool (PBool b) = b"
| "py_bool (PInt n) = (n \<noteq> 0)"
| "py_bool (PFloat (Finite r)) = (r \<noteq> 0)"
| "py_bool (PFloat PosInf) = True"
| "py_bool (PFloat NegInf) = True"
| "py_bool (PFloat NaN) = True"
| "py_bool (PStr s) = (s \<noteq> [])"
| "py_bool (PList xs) = (xs \<noteq> [])"
| "py_bool (PDict kvs) = (kvs \<noteq> [])"

text \<open>The decimal digits of a natural number, and \<open>str(n)\<close> for an int.\<close>

fun nat_digits :: "nat \<Rightarrow> string" where
  "nat_digits n =
     (if n < 10 then [char_of (48 + n)] else nat_digits (n div 10) @ [char_of (48 + n mod 10)])"

declare nat_digits.simps [simp del]

definition str_int :: "int \<Rightarrow> string" where
  "str_int n = (if n < 0 then CHR ''-'' # nat_digits (nat (- n)) else nat_digits (nat n))"

text \<open>
  \<open>str(v)\<close>. The text of a float, a list or a dict is Python's \<open>repr\<close>, which the model
  leaves open: there is no equation for these three cases.
\<close>

fun py_str :: "pyval \<Rightarrow> string" where
  "py_str (PStr s) = s"
| "py_str PNone = ''None''"
| "py_str (PBool b) = (if b then ''True'' else ''False'')"
| "py_str (PInt n) = str_int n"

section \<open>config.py\<close>

record LoudnormConfig =
  enabled :: bool
  i :: int
  dual_mono :: bool

record VolumeConfig =
  volume :: int
  is_muted :: bool
  allow_volume_boost :: bool
  mute_shortcut :: string
  settings_shortcut :: string
  volume_up_shortcut :: string
  volume_down_shortcut :: string
  loudnorm :: LoudnormConfig
  playback_speed :: pyfloat
  speed_up_shortcut :: string
  speed_down_shortcut :: string

text \<open>\<open>LoudnormConfig()\<close> and \<open>VolumeConfig()\<close>: the defaults of the dataclasses.\<close>

definition LoudnormConfig_default :: LoudnormConfig where
  "LoudnormConfig_default = \<lparr>enabled = False, i = -24, dual_mono = False\<rparr>"

definition VolumeConfig_default :: VolumeConfig where
  "VolumeConfig_default =
     \<lparr>volume = 100, is_muted = False, allow_volume_boost = False,
      mute_shortcut = '''', settings_shortcut = '''',
      volume_up_shortcut = '''', volume_down_shortcut = '''',
      loudnorm = LoudnormConfig_default, playback_speed = Finite 1,
      speed_up_shortcut = '''', speed_down_shortcut = ''''\<rparr>"

text \<open>One round of the loop over the shortcut names: \<open>str(value) if value else ""\<close>.\<close>

definition shortcut_value :: "(string \<times> pyval) list \<Rightarrow> string \<Rightarrow> string" where
  "shortcut_value kvs shortcut_name =
     (let v = dict_get kvs shortcut_name (PStr '''') in if py_bool v then py_str v else '''')"

text \<open>The loop over the six shortcut names, in the order of the source.\<close>

definition load_shortcuts :: "(string \<times> pyval) list \<Rightarrow> VolumeConfig \<Rightarrow> VolumeConfig" where
  "load_shortcuts kvs volume_config =
     volume_config
       \<lparr>mute_shortcut := shortcut_value kvs ''mute_shortcut'',
        settings_shortcut := shortcut_value kvs ''settings_shortcut'',
        volume_up_shortcut := shortcut_value kvs ''volume_up_shortcut'',
        volume_down_shortcut := shortcut_value kvs ''volume_down_shortcut'',
        speed_up_shortcut := shortcut_value kvs ''speed_up_shortcut'',
        speed_down_shortcut := shortcut_value kvs ''speed_down_shortcut''\<rparr>"

text \<open>
  The loudnorm section. The three assignments run in order on the object, so an
  exception of \<open>int\<close> leaves \<open>enabled\<close> assigned.
\<close>

definition load_loudnorm :: "pyval \<Rightarrow> VolumeConfig \<Rightarrow> VolumeConfig" where
  "load_loudnorm section volume_config =
     (case section of
        PDict l \<Rightarrow>
          (let c1 = volume_config
                      \<lparr>loudnorm := (loudnorm volume_config)
                         \<lparr>enabled := py_bool (dict_get l ''enabled'' (PBool False))\<rparr>\<rparr>
           in case py_int (dict_get l ''i'' (PInt (-24))) of
                None \<Rightarrow> c1
              | Some n \<Rightarrow>
                  c1\<lparr>loudnorm := (loudnorm c1)
                       \<lparr>i := n,
                        dual_mono := py_bool (dict_get l ''dual_mono'' (PBool False))\<rparr>\<rparr>)
      | _ \<Rightarrow> volume_config)"

text \<open>
  \<open>load_config\<close>, applied to what \<open>getConfig\<close> returned. The object \<open>volume_config\<close> is
  created with the defaults and assigned field by field inside the \<open>try\<close>; the
  \<open>except\<close> branch shows a warning and falls through to \<open>return volume_config\<close>, so an
  exception returns the object as it is at that moment.
\<close>

definition load_config :: "pyval \<Rightarrow> VolumeConfig" where
  "load_config addon_config =
     (let volume_config = VolumeConfig_default
      in case addon_config of
           PDict kvs \<Rightarrow>
             if kvs = [] then volume_config
             else
               (case py_int (dict_get kvs ''volume'' (PInt 100)) of
                  None \<Rightarrow> volume_config
                | Some v \<Rightarrow>
                    (let c1 = volume_config
                                \<lparr>volume := v,
                                 is_muted := py_bool (dict_get kvs ''is_muted'' (PBool False)),
                                 allow_volume_boost :=
                                   py_bool (dict_get kvs ''allow_volume_boost'' (PBool False))\<rparr>
                     in case py_float (dict_get kvs ''playback_speed'' (PFloat (Finite 1))) of
                          None \<Rightarrow> c1
                        | Some s \<Rightarrow>
                            load_loudnorm (dict_get kvs ''loudnorm'' (PDict []))
                              (load_shortcuts kvs (c1\<lparr>playback_speed := s\<rparr>))))
         | _ \<Rightarrow> volume_config)"

text \<open>The dict that \<open>save_config\<close> builds and hands to \<open>writeConfig\<close>.\<close>

definition config_dict :: "VolumeConfig \<Rightarrow> pyval" where
  "config_dict volume_config =
     PDict [(''volume'', PInt (volume volume_config)),
            (''is_muted'', PBool (is_muted volume_config)),
            (''allow_volume_boost'', PBool (allow_volume_boost volume_config)),
            (''mute_shortcut'', PStr (mute_shortcut volume_config)),
            (''settings_shortcut'', PStr (settings_shortcut volume_config)),
            (''volume_up_shortcut'', PStr (volume_up_shortcut volume_config)),
            (''volume_down_shortcut'', PStr (volume_down_shortcut volume_config)),
            (''speed_up_shortcut'', PStr (speed_up_shortcut volume_config)),
            (''speed_down_shortcut'', PStr (speed_down_shortcut volume_config)),
            (''playback_speed'', PFloat (playback_speed volume_config)),
            (''loudnorm'',
               PDict [(''enabled'', PBool (enabled (loudnorm volume_config))),
                      (''i'', PInt (i (loudnorm volume_config))),
                      (''dual_mono'', PBool (dual_mono (loudnorm volume_config)))])]"

section \<open>The host application\<close>

text \<open>
  The player that the hook receives and that \<open>av_player.players\<close> lists: an
  \<open>MpvManager\<close> with its properties, or a player of another class.
  \<open>set_property\<close> stores a value under the property's name.
\<close>

datatype player = MpvManager "string \<rightharpoonup> pyval" | OtherPlayer

definition set_property :: "string \<Rightarrow> pyval \<Rightarrow> (string \<rightharpoonup> pyval) \<Rightarrow> (string \<rightharpoonup> pyval)" where
  "set_property name v props = props(name \<mapsto> v)"

fun get_property :: "player \<Rightarrow> string \<Rightarrow> pyval option" where
  "get_property (MpvManager props) name = props name"
| "get_property OtherPlayer name = None"

text \<open>What a registered shortcut runs when it is triggered.\<close>

datatype command = AdjustVolume int | ToggleMute | ShowVolumeDialog | AdjustSpeed real

text \<open>The callbacks on the hook \<open>gui_hooks.av_player_did_begin_playing\<close>.\<close>

datatype hook = DidBeginPlaying | OtherHook nat

text \<open>
  The state the add-on reads and writes: the stored configuration of the add-on
  (\<open>getConfig\<close> returns it, \<open>writeConfig\<close> replaces it), the callbacks on the hook, the
  live shortcut actions \<open>mw._volume_shortcuts\<close> (each with its key sequence and its
  callback; a main window without the attribute is the empty list) and the players.
  The host's calls do not raise in this model, and tooltips and warnings, which only
  display text, are left out.
\<close>

record world =
  addon_config :: pyval
  av_player_did_begin_playing :: "hook list"
  volume_shortcuts :: "(string \<times> command) list"
  players :: "player list"

text \<open>\<open>config.save_config\<close>\<close>

definition config_save_config :: "VolumeConfig \<Rightarrow> world \<Rightarrow> world" where
  "config_save_config volume_config w = w\<lparr>addon_config := config_dict volume_config\<rparr>"

section \<open>ui.py\<close>

text \<open>\<open>key.isspace()\<close>\<close>

definition isspace :: "string \<Rightarrow> bool" where
  "isspace s = (s \<noteq> [] \<and> list_all is_space s)"

text \<open>The inner function of \<open>setup_shortcuts\<close>: no action for an empty or blank key.\<close>

definition register_shortcut :: "string \<Rightarrow> command \<Rightarrow> (string \<times> command) option" where
  "register_shortcut key fn = (if key = [] \<or> isspace key then None else Some (key, fn))"

text \<open>
  \<open>setup_shortcuts\<close>: every action of the old list is disabled and removed, and the
  list is rebuilt from the stored configuration.
\<close>

definition setup_shortcuts :: "world \<Rightarrow> world" where
  "setup_shortcuts w =
     (let volume_config = load_config (addon_config w);
          shortcuts =
            [(volume_up_shortcut volume_config, AdjustVolume 10),
             (volume_down_shortcut volume_config, AdjustVolume (-10)),
             (mute_shortcut volume_config, ToggleMute),
             (settings_shortcut volume_config, ShowVolumeDialog),
             (speed_up_shortcut volume_config, AdjustSpeed 0.1),
             (speed_down_shortcut volume_config, AdjustSpeed (-0.1))]
      in w\<lparr>volume_shortcuts := List.map_filter (\<lambda>(key, fn). register_shortcut key fn) shortcuts\<rparr>)"

text \<open>\<open>ui.save_config\<close>: write the configuration, renew the hook, reset the shortcuts.\<close>

definition save_config :: "VolumeConfig \<Rightarrow> world \<Rightarrow> world" where
  "save_config volume_config w =
     (let w1 = config_save_config volume_config w;
          w2 = w1\<lparr>av_player_did_begin_playing :=
                    remove1 DidBeginPlaying (av_player_did_begin_playing w1) @ [DidBeginPlaying]\<rparr>
      in setup_shortcuts w2)"

text \<open>
  The body of \<open>adjust_volume\<close> between \<open>load_config\<close> and \<open>save_config\<close>. The new volume
  is computed from the delta as it was passed; the delta is cut to the range afterwards.
\<close>

definition adjust_volume_config :: "int \<Rightarrow> VolumeConfig \<Rightarrow> VolumeConfig" where
  "adjust_volume_config delta0 volume_config =
     (let max_volume = (if allow_volume_boost volume_config then 200 else 100);
          new_volume = max 0 (min max_volume (volume volume_config + delta0));
          delta = (if \<bar>delta0\<bar> > max_volume
                   then (if delta0 > 0 then max_volume else - max_volume)
                   else delta0);
          c1 = (if new_volume = 0 then volume_config\<lparr>is_muted := True\<rparr>
                else if volume volume_config = 0 \<and> new_volume > 0
                  then volume_config\<lparr>is_muted := False\<rparr>
                else if delta > 0 \<and> is_muted volume_config
                  then volume_config\<lparr>is_muted := False\<rparr>
                else volume_config)
      in c1\<lparr>volume := new_volume\<rparr>)"

definition adjust_volume :: "int \<Rightarrow> world \<Rightarrow> world" where
  "adjust_volume delta w =
     save_config (adjust_volume_config delta (load_config (addon_config w))) w"

text \<open>
  Comparison of floats: false whenever one side is \<open>nan\<close>.
\<close>

fun float_less :: "pyfloat \<Rightarrow> pyfloat \<Rightarrow> bool" where
  "float_less (Finite a) (Finite b) = (a < b)"
| "float_less NaN y = False"
| "float_less x NaN = False"
| "float_less x NegInf = False"
| "float_less NegInf y = True"
| "float_less PosInf y = False"
| "float_less (Finite a) PosInf = True"

definition SPEED_STEPS :: "pyfloat list" where
  "SPEED_STEPS =
     map Finite [0.25, 0.5, 0.6, 0.7, 0.8, 0.9, 1.0, 1.1, 1.2, 1.3, 1.4, 1.5, 1.75, 2.0]"

text \<open>
  \<open>_get_nearest_speed\<close>: the first step above the current speed, scanning upwards, or
  the first step below it, scanning downwards; the last step scanned when there is none.
\<close>

definition get_nearest_speed :: "pyfloat \<Rightarrow> bool \<Rightarrow> pyfloat" where
  "get_nearest_speed current_speed increase =
     (if increase then
        (case find (\<lambda>speed. float_less current_speed speed) SPEED_STEPS of
           Some speed \<Rightarrow> speed
         | None \<Rightarrow> last SPEED_STEPS)
      else
        (case find (\<lambda>speed. float_less speed current_speed) (rev SPEED_STEPS) of
           Some speed \<Rightarrow> speed
         | None \<Rightarrow> hd SPEED_STEPS))"

text \<open>\<open>adjust_speed\<close>: the new speed is saved and set on every mpv player.\<close>

definition adjust_speed :: "real \<Rightarrow> world \<Rightarrow> world" where
  "adjust_speed delta w =
     (let volume_config = load_config (addon_config w);
          new_speed = get_nearest_speed (playback_speed volume_config) (delta > 0);
          w1 = save_config (volume_config\<lparr>playback_speed := new_speed\<rparr>) w
      in w1\<lparr>players :=
               map (\<lambda>player. case player of
                                MpvManager props \<Rightarrow>
                                  MpvManager (set_property ''speed'' (PFloat new_speed) props)
                              | OtherPlayer \<Rightarrow> OtherPlayer)
                   (players w1)\<rparr>)"

text \<open>\<open>toggle_mute\<close>: nothing is saved when the volume is not above 0.\<close>

definition toggle_mute :: "world \<Rightarrow> world" where
  "toggle_mute w =
     (let volume_config = load_config (addon_config w)
      in if volume volume_config > 0
         then save_config (volume_config\<lparr>is_muted := \<not> is_muted volume_config\<rparr>) w
         else w)"

subsection \<open>The widgets of the dialog\<close>

text \<open>
  A \<open>QSlider\<close> or a \<open>QSpinBox\<close>: a range and a value. Qt keeps the value inside the
  range: \<open>setValue\<close> bounds its argument, and \<open>setMaximum\<close> lowers the minimum when it
  has to and bounds the value again.
\<close>

record range_widget =
  wminimum :: int
  wmaximum :: int
  wvalue :: int

definition setValue :: "int \<Rightarrow> range_widget \<Rightarrow> range_widget" where
  "setValue v x = x\<lparr>wvalue := max (wminimum x) (min (wmaximum x) v)\<rparr>"

definition setMaximum :: "int \<Rightarrow> range_widget \<Rightarrow> range_widget" where
  "setMaximum m x =
     (let mn = min (wminimum x) m
      in \<lparr>wminimum = mn, wmaximum = m, wvalue = max mn (min m (wvalue x))\<rparr>)"

text \<open>
  \<open>_create_config_widgets\<close> connects the slider's \<open>valueChanged\<close> to the spin box's
  \<open>setValue\<close> and back. A widget emits the signal only when its value has changed.
  \<open>value_changed n True (slider, spin_box)\<close> delivers the slider's signal, with \<open>False\<close>
  the spin box's; \<open>n\<close> bounds the length of the chain of signals.
\<close>

fun value_changed ::
  "nat \<Rightarrow> bool \<Rightarrow> range_widget \<times> range_widget \<Rightarrow> range_widget \<times> range_widget" where
  "value_changed 0 from_slider (slider, spin_box) = (slider, spin_box)"
| "value_changed (Suc n) True (slider, spin_box) =
     (let spin_box' = setValue (wvalue slider) spin_box
      in if wvalue spin_box' = wvalue spin_box then (slider, spin_box')
         else value_changed n False (slider, spin_box'))"
| "value_changed (Suc n) False (slider, spin_box) =
     (let slider' = setValue (wvalue spin_box) slider
      in if wvalue slider' = wvalue slider then (slider', spin_box)
         else value_changed n True (slider', spin_box))"

text \<open>A chain of signals between two widgets ends after four deliveries at most.\<close>

definition signal_fuel :: nat where
  "signal_fuel = 4"

definition slider_setValue ::
  "int \<Rightarrow> range_widget \<times> range_widget \<Rightarrow> range_widget \<times> range_widget" where
  "slider_setValue v p =
     (let slider' = setValue v (fst p)
      in if wvalue slider' = wvalue (fst p) then (slider', snd p)
         else value_changed signal_fuel True (slider', snd p))"

definition spin_box_setValue ::
  "int \<Rightarrow> range_widget \<times> range_widget \<Rightarrow> range_widget \<times> range_widget" where
  "spin_box_setValue v p =
     (let spin_box' = setValue v (snd p)
      in if wvalue spin_box' = wvalue (snd p) then (fst p, spin_box')
         else value_changed signal_fuel False (fst p, spin_box'))"

definition slider_setMaximum ::
  "int \<Rightarrow> range_widget \<times> range_widget \<Rightarrow> range_widget \<times> range_widget" where
  "slider_setMaximum m p =
     (let slider' = setMaximum m (fst p)
      in if wvalue slider' = wvalue (fst p) then (slider', snd p)
         else value_changed signal_fuel True (slider', snd p))"

definition spin_box_setMaximum ::
  "int \<Rightarrow> range_widget \<times> range_widget \<Rightarrow> range_widget \<times> range_widget" where
  "spin_box_setMaximum m p =
     (let spin_box' = setMaximum m (snd p)
      in if wvalue spin_box' = wvalue (snd p) then (fst p, spin_box')
         else value_changed signal_fuel False (fst p, spin_box'))"

text \<open>
  A \<open>QKeySequence\<close>: up to four key combinations, each a set of modifiers and a key
  (here the key's name). \<open>toString\<close> writes the modifiers in Qt's order, then the key,
  and separates the combinations by a comma and a space.
\<close>

datatype KeyboardModifier =
  ShiftModifier | ControlModifier | AltModifier | MetaModifier | KeypadModifier
  | GroupSwitchModifier

record QKeyCombination =
  keyboardModifiers :: "KeyboardModifier set"
  key_name :: string

type_synonym QKeySequence = "QKeyCombination list"

definition isEmpty :: "QKeySequence \<Rightarrow> bool" where
  "isEmpty sequence = (sequence = [])"

definition combination_string :: "QKeyCombination \<Rightarrow> string" where
  "combination_string kc =
     (if MetaModifier \<in> keyboardModifiers kc then ''Meta+'' else []) @
     (if ControlModifier \<in> keyboardModifiers kc then ''Ctrl+'' else []) @
     (if AltModifier \<in> keyboardModifiers kc then ''Alt+'' else []) @
     (if ShiftModifier \<in> keyboardModifiers kc then ''Shift+'' else []) @
     (if KeypadModifier \<in> keyboardModifiers kc then ''Num+'' else []) @
     key_name kc"

fun toString :: "QKeySequence \<Rightarrow> string" where
  "toString [] = []"
| "toString [kc] = combination_string kc"
| "toString (kc # rest) = combination_string kc @ '', '' @ toString rest"

text \<open>The widgets of a \<open>VolumeDialog\<close> that \<open>on_volume_boost_changed\<close> and \<open>accept\<close> use.\<close>

record VolumeDialog =
  current_session_boost_enabled :: bool
  volume_slider :: range_widget
  volume_spin_box :: range_widget
  volume_boost_check_box :: bool
  mute_check_box :: bool
  loudnorm_group_box :: bool
  i_spin_box :: range_widget
  dual_mono_check_box :: bool
  speed_slider :: range_widget
  volume_up_shortcut_edit :: QKeySequence
  volume_down_shortcut_edit :: QKeySequence
  mute_shortcut_edit :: QKeySequence
  settings_shortcut_edit :: QKeySequence
  speed_up_shortcut_edit :: QKeySequence
  speed_down_shortcut_edit :: QKeySequence

text \<open>\<open>self.shortcut_editors\<close>, in the order in which \<open>__init__\<close> fills the dict.\<close>

definition shortcut_editors :: "VolumeDialog \<Rightarrow> (string \<times> QKeySequence) list" where
  "shortcut_editors d =
     [(''volume_up_shortcut_edit'', volume_up_shortcut_edit d),
      (''volume_down_shortcut_edit'', volume_down_shortcut_edit d),
      (''mute_shortcut_edit'', mute_shortcut_edit d),
      (''settings_shortcut_edit'', settings_shortcut_edit d),
      (''speed_up_shortcut_edit'', speed_up_shortcut_edit d),
      (''speed_down_shortcut_edit'', speed_down_shortcut_edit d)]"

subsection \<open>\<open>VolumeDialog.on_volume_boost_changed\<close>\<close>

text \<open>
  The handler of the check box's \<open>stateChanged\<close>; \<open>state\<close> is 0 when the box has been
  unchecked. The warning shown when the boost is switched on is not part of the state.
\<close>

definition on_volume_boost_changed :: "int \<Rightarrow> VolumeDialog \<Rightarrow> VolumeDialog" where
  "on_volume_boost_changed state d =
     (let allow_boost = (state \<noteq> 0);
          current_volume = wvalue (volume_slider d);
          max_volume = (if allow_boost then 200 else 100);
          p1 = slider_setMaximum max_volume (volume_slider d, volume_spin_box d);
          p2 = spin_box_setMaximum max_volume p1;
          p3 = (if \<not> allow_boost \<and> current_volume > 100
                then spin_box_setValue 100 (slider_setValue 100 p2)
                else p2)
      in d\<lparr>current_session_boost_enabled := allow_boost,
            volume_slider := fst p3,
            volume_spin_box := snd p3\<rparr>)"

subsection \<open>\<open>VolumeDialog.accept\<close>\<close>

definition has_modifier :: "QKeyCombination \<Rightarrow> bool" where
  "has_modifier kc =
     (keyboardModifiers kc \<inter> {ControlModifier, AltModifier, ShiftModifier, MetaModifier} \<noteq> {})"

text \<open>
  The first loop of \<open>accept\<close>: \<open>False\<close> when it reaches its \<open>return\<close>, at a sequence that
  is not empty and whose first key combination has no modifier.
\<close>

fun check_modifiers :: "QKeySequence list \<Rightarrow> bool" where
  "check_modifiers [] = True"
| "check_modifiers (sequence # rest) =
     (case sequence of
        [] \<Rightarrow> check_modifiers rest
      | key_combination # _ \<Rightarrow>
          if \<not> has_modifier key_combination then False else check_modifiers rest)"

text \<open>
  The second loop: \<open>False\<close> when it reaches its \<open>return\<close>, at a sequence whose string is
  already a key of \<open>used_shortcuts\<close>.
\<close>

fun check_duplicates :: "(string \<times> QKeySequence) list \<Rightarrow> (string \<rightharpoonup> string) \<Rightarrow> bool" where
  "check_duplicates [] used_shortcuts = True"
| "check_duplicates ((name, sequence) # rest) used_shortcuts =
     (if \<not> isEmpty sequence then
        (let key_string = toString sequence
         in if used_shortcuts key_string \<noteq> None then False
            else check_duplicates rest (used_shortcuts(key_string \<mapsto> name)))
      else check_duplicates rest used_shortcuts)"

text \<open>The configuration that \<open>accept\<close> saves: every field is taken from a widget.\<close>

definition edited_config :: "VolumeDialog \<Rightarrow> VolumeConfig \<Rightarrow> VolumeConfig" where
  "edited_config d volume_config =
     volume_config
       \<lparr>volume := wvalue (volume_slider d),
        is_muted := mute_check_box d,
        allow_volume_boost := volume_boost_check_box d,
        playback_speed := Finite (real_of_int (wvalue (speed_slider d)) / 100),
        volume_up_shortcut := toString (volume_up_shortcut_edit d),
        volume_down_shortcut := toString (volume_down_shortcut_edit d),
        mute_shortcut := toString (mute_shortcut_edit d),
        settings_shortcut := toString (settings_shortcut_edit d),
        speed_up_shortcut := toString (speed_up_shortcut_edit d),
        speed_down_shortcut := toString (speed_down_shortcut_edit d),
        loudnorm := (loudnorm volume_config)
          \<lparr>enabled := loudnorm_group_box d,
           i := wvalue (i_spin_box d),
           dual_mono := dual_mono_check_box d\<rparr>\<rparr>"

text \<open>
  \<open>accept\<close> returns the state of the host and whether the dialog was accepted
  (\<open>super().accept()\<close> was reached).
\<close>

definition accept :: "VolumeDialog \<Rightarrow> world \<Rightarrow> world \<times> bool" where
  "accept d w =
     (if \<not> check_modifiers (map snd (shortcut_editors d)) then (w, False)
      else if \<not> check_duplicates (shortcut_editors d) Map.empty then (w, False)
      else
        (let volume_config = edited_config d (load_config (addon_config w));
             w1 = save_config volume_config w;
             w2 = setup_shortcuts w1
         in (w2, True)))"

section \<open>hook.py\<close>

text \<open>
  \<open>did_begin_playing\<close>: the player after the call. Nothing happens for \<open>None\<close> and for
  a player that is not an \<open>MpvManager\<close>. In the muted branch the function returns
  right after it has cleared the filter.
\<close>

definition did_begin_playing :: "world \<Rightarrow> player option \<Rightarrow> player option" where
  "did_begin_playing w player =
     (case player of
        None \<Rightarrow> None
      | Some OtherPlayer \<Rightarrow> Some OtherPlayer
      | Some (MpvManager props) \<Rightarrow>
          (let volume_config = load_config (addon_config w);
               actual_volume = (if is_muted volume_config then 0 else volume volume_config);
               p1 = set_property ''volume'' (PInt actual_volume) props
           in if is_muted volume_config \<or> actual_volume = 0
              then Some (MpvManager (set_property ''af'' (PStr []) p1))
              else
                (let p2 =
                       (if enabled (loudnorm volume_config)
                        then set_property ''af''
                               (PStr (''loudnorm=I='' @ str_int (i (loudnorm volume_config))
                                      @ '':dual_mono=''
                                      @ (if dual_mono (loudnorm volume_config)
                                         then ''true'' else ''false'')))
                               p1
                        else set_property ''af'' (PStr []) p1)
                 in Some (MpvManager
                            (set_property ''speed'' (PFloat (playback_speed volume_config)) p2)))))"

section \<open>Notions used in the properties\<close>

text \<open>
  A widget whose value lies in its range, as Qt keeps it, and the state of the two
  volume controls that the connected signals maintain: both in range, both showing the
  same value.
\<close>

definition in_range :: "range_widget \<Rightarrow> bool" where
  "in_range x = (wminimum x \<le> wvalue x \<and> wvalue x \<le> wmaximum x)"

definition volume_controls_ok :: "VolumeDialog \<Rightarrow> bool" where
  "volume_controls_ok d =
     (in_range (volume_slider d) \<and> in_range (volume_spin_box d) \<and>
      wvalue (volume_spin_box d) = wvalue (volume_slider d))"

text \<open>The range of a volume control once the boost is off.\<close>

definition range_to_100 :: "range_widget \<Rightarrow> bool" where
  "range_to_100 x = (wmaximum x = 100 \<and> wminimum x \<le> 100)"

text \<open>The strings that the second loop of \<open>accept\<close> enters into \<open>used_shortcuts\<close>.\<close>

definition key_strings :: "(string \<times> QKeySequence) list \<Rightarrow> string list" where
  "key_strings xs = map (\<lambda>a. toString (snd a)) (filter (\<lambda>a. \<not> isEmpty (snd a)) xs)"

section \<open>Properties of \<open>load_config\<close>\<close>

lemmas str_parse_defs =
  float_of_str_def int_of_str_def strip_def is_space_def split_sign_def lower_char_def
  split_at_def mantissa_def exponent_def digitpart_def digit_val_def digits_value_def
  scale10_def

text \<open>What \<open>save_config\<close> writes is read back unchanged.\<close>

lemma load_config_config_dict: "load_config (config_dict c) = c"
  by (simp add: load_config_def config_dict_def dict_get_def load_shortcuts_def
      shortcut_value_def load_loudnorm_def VolumeConfig_default_def LoudnormConfig_default_def)

text \<open>
  A volume that \<open>int\<close> rejects: the exception comes before the first assignment, and
  the defaults are returned.
\<close>

lemma load_config_volume_error:
  "kvs \<noteq> [] \<Longrightarrow> py_int (dict_get kvs ''volume'' (PInt 100)) = None \<Longrightarrow>
   load_config (PDict kvs) = VolumeConfig_default"
  by (simp add: load_config_def Let_def)

text \<open>
  A playback speed that \<open>float\<close> rejects: the exception comes after the assignments of
  \<open>volume\<close>, \<open>is_muted\<close> and \<open>allow_volume_boost\<close>, which stay in the returned object.
\<close>

lemma load_config_speed_error:
  "kvs \<noteq> [] \<Longrightarrow> py_int (dict_get kvs ''volume'' (PInt 100)) = Some n \<Longrightarrow>
   py_float (dict_get kvs ''playback_speed'' (PFloat (Finite 1))) = None \<Longrightarrow>
   load_config (PDict kvs) =
     VolumeConfig_default
       \<lparr>volume := n,
        is_muted := py_bool (dict_get kvs ''is_muted'' (PBool False)),
        allow_volume_boost := py_bool (dict_get kvs ''allow_volume_boost'' (PBool False))\<rparr>"
  by (simp add: load_config_def Let_def)

text \<open>
  Claim C1: whenever a numeric field (\<open>volume\<close> or \<open>playback_speed\<close>) holds a value that
  is not a number, \<open>load_config\<close> returns the defaults in every field, whatever the other
  fields hold. The code does not do this for \<open>playback_speed\<close>: for the configuration
  \<open>{'volume': 50, 'playback_speed': 'fast'}\<close> the conversion of \<open>'fast'\<close> fails, and the
  object returned has the stored volume 50, not the default 100.
\<close>

theorem load_config_speed_error_keeps_volume:
  "py_float (PStr ''fast'') = None \<and>
   load_config (PDict [(''volume'', PInt 50), (''playback_speed'', PStr ''fast'')])
     = VolumeConfig_default\<lparr>volume := 50\<rparr> \<and>
   load_config (PDict [(''volume'', PInt 50), (''playback_speed'', PStr ''fast'')])
     \<noteq> VolumeConfig_default"
  by (simp add: load_config_def dict_get_def str_parse_defs VolumeConfig_default_def)

lemma dict_get_filter:
  "k \<noteq> k' \<Longrightarrow> dict_get (filter (\<lambda>(a, _). a \<noteq> k') kvs) k d = dict_get kvs k d"
  by (induction kvs) (auto simp: dict_get_def)

lemma dict_get_filter_same:
  "dict_get (filter (\<lambda>(a, _). a \<noteq> k) kvs) k d = d"
  by (induction kvs) (auto simp: dict_get_def)

lemma shortcut_value_filter:
  "k \<noteq> k' \<Longrightarrow> shortcut_value (filter (\<lambda>(a, _). a \<noteq> k') kvs) k = shortcut_value kvs k"
  by (simp add: shortcut_value_def dict_get_filter)

lemma load_loudnorm_not_dict:
  "(\<And>l. v \<noteq> PDict l) \<Longrightarrow> load_loudnorm v c = c"
  by (cases v) (auto simp: load_loudnorm_def)

lemma load_loudnorm_empty:
  "loudnorm c = LoudnormConfig_default \<Longrightarrow> load_loudnorm (PDict []) c = c"
  by (simp add: load_loudnorm_def dict_get_def LoudnormConfig_default_def)

text \<open>
  Claim C9: when the key \<open>loudnorm\<close> holds a value that is not a dict, the loudnorm
  section of the result has its defaults (\<open>enabled = False\<close>, \<open>i = -24\<close>,
  \<open>dual_mono = False\<close>) and every other field is loaded as usual: the result is the one
  for the configuration without the key, and when \<open>volume\<close> and \<open>playback_speed\<close> convert,
  each other field is the conversion of its stored value.
\<close>

theorem load_config_loudnorm_not_dict:
  assumes "map_of kvs ''loudnorm'' = Some v" and "\<forall>l. v \<noteq> PDict l"
  shows "loudnorm (load_config (PDict kvs)) =
           \<lparr>enabled = False, i = -24, dual_mono = False\<rparr> \<and>
         load_config (PDict kvs) =
           load_config (PDict (filter (\<lambda>(k, _). k \<noteq> ''loudnorm'') kvs)) \<and>
         (\<forall>n s. py_int (dict_get kvs ''volume'' (PInt 100)) = Some n \<and>
                 py_float (dict_get kvs ''playback_speed'' (PFloat (Finite 1))) = Some s \<longrightarrow>
            load_config (PDict kvs) =
              \<lparr>volume = n,
               is_muted = py_bool (dict_get kvs ''is_muted'' (PBool False)),
               allow_volume_boost = py_bool (dict_get kvs ''allow_volume_boost'' (PBool False)),
               mute_shortcut = shortcut_value kvs ''mute_shortcut'',
               settings_shortcut = shortcut_value kvs ''settings_shortcut'',
               volume_up_shortcut = shortcut_value kvs ''volume_up_shortcut'',
               volume_down_shortcut = shortcut_value kvs ''volume_down_shortcut'',
               loudnorm = \<lparr>enabled = False, i = -24, dual_mono = False\<rparr>,
               playback_speed = s,
               speed_up_shortcut = shortcut_value kvs ''speed_up_shortcut'',
               speed_down_shortcut = shortcut_value kvs ''speed_down_shortcut''\<rparr>)"
proof -
  have ne: "kvs \<noteq> []" using assms(1) by auto
  have g: "dict_get kvs ''loudnorm'' (PDict []) = v"
    using assms(1) by (simp add: dict_get_def)
  have nd: "\<And>c. load_loudnorm v c = c"
    using assms(2) by (simp add: load_loudnorm_not_dict)
  let ?kvs' = "filter (\<lambda>(k, _). k \<noteq> ''loudnorm'') kvs"
  have g': "dict_get ?kvs' ''loudnorm'' (PDict []) = PDict []"
    by (rule dict_get_filter_same)
  have A: "loudnorm (load_config (PDict kvs)) = \<lparr>enabled = False, i = -24, dual_mono = False\<rparr>"
    using ne
    by (simp add: load_config_def Let_def g nd load_shortcuts_def VolumeConfig_default_def
        LoudnormConfig_default_def split: option.splits)
  have C: "\<forall>n s. py_int (dict_get kvs ''volume'' (PInt 100)) = Some n \<and>
                 py_float (dict_get kvs ''playback_speed'' (PFloat (Finite 1))) = Some s \<longrightarrow>
            load_config (PDict kvs) =
              \<lparr>volume = n,
               is_muted = py_bool (dict_get kvs ''is_muted'' (PBool False)),
               allow_volume_boost = py_bool (dict_get kvs ''allow_volume_boost'' (PBool False)),
               mute_shortcut = shortcut_value kvs ''mute_shortcut'',
               settings_shortcut = shortcut_value kvs ''settings_shortcut'',
               volume_up_shortcut = shortcut_value kvs ''volume_up_shortcut'',
               volume_down_shortcut = shortcut_value kvs ''volume_down_shortcut'',
               loudnorm = \<lparr>enabled = False, i = -24, dual_mono = False\<rparr>,
               playback_speed = s,
               speed_up_shortcut = shortcut_value kvs ''speed_up_shortcut'',
               speed_down_shortcut = shortcut_value kvs ''speed_down_shortcut''\<rparr>"
    using ne
    by (simp add: load_config_def Let_def g nd load_shortcuts_def VolumeConfig_default_def
        LoudnormConfig_default_def)
  have B: "load_config (PDict kvs) = load_config (PDict ?kvs')"
  proof (cases "?kvs' = []")
    case True
    have "\<And>k d. k \<noteq> ''loudnorm'' \<Longrightarrow> dict_get kvs k d = d"
      using dict_get_filter [of _ "''loudnorm''" kvs] True by (simp add: dict_get_def)
    then show ?thesis
      using ne True
      by (simp add: load_config_def Let_def g nd load_shortcuts_def shortcut_value_def
          VolumeConfig_default_def)
  next
    case False
    then show ?thesis
      using ne
      by (simp add: load_config_def Let_def g nd g' dict_get_filter shortcut_value_filter
          load_shortcuts_def load_loudnorm_empty VolumeConfig_default_def
          split: option.splits)
  qed
  from A B C show ?thesis by blast
qed

theorem load_config_loudnorm_not_dict_witness:
  "map_of [(''volume'', PInt 70), (''loudnorm'', PStr ''not a dict''),
           (''mute_shortcut'', PStr ''Ctrl+M'')] ''loudnorm'' = Some (PStr ''not a dict'') \<and>
   (\<forall>l. PStr ''not a dict'' \<noteq> PDict l) \<and>
   load_config (PDict [(''volume'', PInt 70), (''loudnorm'', PStr ''not a dict''),
                       (''mute_shortcut'', PStr ''Ctrl+M'')]) =
     \<lparr>volume = 70, is_muted = False, allow_volume_boost = False,
      mute_shortcut = ''Ctrl+M'', settings_shortcut = [],
      volume_up_shortcut = [], volume_down_shortcut = [],
      loudnorm = \<lparr>enabled = False, i = -24, dual_mono = False\<rparr>,
      playback_speed = Finite 1, speed_up_shortcut = [], speed_down_shortcut = []\<rparr>"
proof -
  have h1: "map_of [(''volume'', PInt 70), (''loudnorm'', PStr ''not a dict''),
                    (''mute_shortcut'', PStr ''Ctrl+M'')] ''loudnorm'' = Some (PStr ''not a dict'')"
    by simp
  have h2: "\<forall>l. PStr ''not a dict'' \<noteq> PDict l" by simp
  have "load_config (PDict [(''volume'', PInt 70), (''loudnorm'', PStr ''not a dict''),
                            (''mute_shortcut'', PStr ''Ctrl+M'')]) =
     \<lparr>volume = 70, is_muted = False, allow_volume_boost = False,
      mute_shortcut = ''Ctrl+M'', settings_shortcut = [],
      volume_up_shortcut = [], volume_down_shortcut = [],
      loudnorm = \<lparr>enabled = False, i = -24, dual_mono = False\<rparr>,
      playback_speed = Finite 1, speed_up_shortcut = [], speed_down_shortcut = []\<rparr>"
    using conjunct2 [OF conjunct2 [OF load_config_loudnorm_not_dict [OF h1 h2]]]
    by (simp add: dict_get_def shortcut_value_def)
  with h1 h2 show ?thesis by blast
qed

section \<open>Properties of the volume and speed commands\<close>

lemma addon_config_setup_shortcuts: "addon_config (setup_shortcuts w) = addon_config w"
  by (simp add: setup_shortcuts_def Let_def)

lemma addon_config_save_config: "addon_config (save_config c w) = config_dict c"
  by (simp add: save_config_def Let_def config_save_config_def addon_config_setup_shortcuts)

lemma load_config_save_config: "load_config (addon_config (save_config c w)) = c"
  by (simp add: addon_config_save_config load_config_config_dict)

text \<open>
  What \<open>adjust_volume\<close> leaves in the store is the adjusted configuration; the next
  \<open>load_config\<close> returns it.
\<close>

lemma adjust_volume_stored:
  "load_config (addon_config (adjust_volume delta w)) =
     adjust_volume_config delta (load_config (addon_config w))"
  by (simp add: adjust_volume_def load_config_save_config)

text \<open>
  Claim C3: for every configuration and every delta, the mute flag after
  \<open>adjust_volume\<close> follows the rules in this order: a new volume of 0 mutes; otherwise
  leaving volume 0 for a positive volume unmutes; otherwise a positive delta on a
  muted configuration unmutes; otherwise the flag is unchanged. This holds for the
  adjusted configuration and for what the next \<open>load_config\<close> reads from the store.
\<close>

theorem adjust_volume_mute_rules:
  "is_muted (adjust_volume_config delta p) =
     (if volume (adjust_volume_config delta p) = 0 then True
      else if volume p = 0 \<and> 0 < volume (adjust_volume_config delta p) then False
      else if 0 < delta \<and> is_muted p then False
      else is_muted p) \<and>
   is_muted (load_config (addon_config (adjust_volume delta w))) =
     (if volume (load_config (addon_config (adjust_volume delta w))) = 0 then True
      else if volume (load_config (addon_config w)) = 0 \<and>
              0 < volume (load_config (addon_config (adjust_volume delta w))) then False
      else if 0 < delta \<and> is_muted (load_config (addon_config w)) then False
      else is_muted (load_config (addon_config w)))"
proof -
  have pure: "is_muted (adjust_volume_config delta q) =
     (if volume (adjust_volume_config delta q) = 0 then True
      else if volume q = 0 \<and> 0 < volume (adjust_volume_config delta q) then False
      else if 0 < delta \<and> is_muted q then False
      else is_muted q)" for q
    by (simp add: adjust_volume_config_def Let_def)
  show ?thesis
    unfolding adjust_volume_stored
    using pure [of p] pure [of "load_config (addon_config w)"] by blast
qed

theorem adjust_volume_mute_rules_witness:
  "is_muted (adjust_volume_config (-10) (VolumeConfig_default\<lparr>volume := 10\<rparr>)) = True \<and>
   is_muted (adjust_volume_config 500 (VolumeConfig_default\<lparr>volume := 40, is_muted := True\<rparr>))
     = False \<and>
   is_muted (adjust_volume_config (-10) (VolumeConfig_default\<lparr>volume := 40, is_muted := True\<rparr>))
     = True \<and>
   is_muted (load_config (addon_config
     (adjust_volume 10
        \<lparr>addon_config = PDict [(''volume'', PInt 0), (''is_muted'', PBool True)],
         av_player_did_begin_playing = [], volume_shortcuts = [], players = []\<rparr>))) = False"
proof -
  have e: "load_config (PDict [(''volume'', PInt 0), (''is_muted'', PBool True)]) =
             VolumeConfig_default\<lparr>volume := 0, is_muted := True\<rparr>"
    by (simp add: load_config_def dict_get_def Let_def load_shortcuts_def shortcut_value_def
        load_loudnorm_def VolumeConfig_default_def LoudnormConfig_default_def)
  have v: "volume (adjust_volume_config 10 (VolumeConfig_default\<lparr>volume := 0, is_muted := True\<rparr>))
             = 10"
    by (simp add: adjust_volume_config_def Let_def VolumeConfig_default_def)
  show ?thesis
    using adjust_volume_mute_rules
        [of "-10" "VolumeConfig_default\<lparr>volume := 10\<rparr>"
            "\<lparr>addon_config = PDict [(''volume'', PInt 0), (''is_muted'', PBool True)],
              av_player_did_begin_playing = [], volume_shortcuts = [], players = []\<rparr>"]
      adjust_volume_mute_rules
        [of 500 "VolumeConfig_default\<lparr>volume := 40, is_muted := True\<rparr>"
            "\<lparr>addon_config = PDict [(''volume'', PInt 0), (''is_muted'', PBool True)],
              av_player_did_begin_playing = [], volume_shortcuts = [], players = []\<rparr>"]
      adjust_volume_mute_rules
        [of "-10" "VolumeConfig_default\<lparr>volume := 40, is_muted := True\<rparr>"
            "\<lparr>addon_config = PDict [(''volume'', PInt 0), (''is_muted'', PBool True)],
              av_player_did_begin_playing = [], volume_shortcuts = [], players = []\<rparr>"]
      adjust_volume_mute_rules
        [of 10 "VolumeConfig_default\<lparr>volume := 10\<rparr>"
            "\<lparr>addon_config = PDict [(''volume'', PInt 0), (''is_muted'', PBool True)],
              av_player_did_begin_playing = [], volume_shortcuts = [], players = []\<rparr>"]
    by (simp add: adjust_volume_stored e v adjust_volume_config_def Let_def
        VolumeConfig_default_def)
qed

text \<open>
  Claim C6: for every configuration and every delta, the volume after \<open>adjust_volume\<close>
  lies between 0 and the maximum, which is 200 when the boost is allowed and 100
  otherwise; the boost flag itself is not changed. This holds whatever the volume was
  before, in particular when it was in the range, for the adjusted configuration and
  for what the next \<open>load_config\<close> reads from the store.
\<close>

theorem adjust_volume_range:
  "0 \<le> volume (adjust_volume_config delta p) \<and>
   volume (adjust_volume_config delta p) \<le> (if allow_volume_boost p then 200 else 100) \<and>
   allow_volume_boost (adjust_volume_config delta p) = allow_volume_boost p \<and>
   0 \<le> volume (load_config (addon_config (adjust_volume delta w))) \<and>
   volume (load_config (addon_config (adjust_volume delta w)))
     \<le> (if allow_volume_boost (load_config (addon_config w)) then 200 else 100) \<and>
   allow_volume_boost (load_config (addon_config (adjust_volume delta w))) =
     allow_volume_boost (load_config (addon_config w))"
proof -
  have pure: "0 \<le> volume (adjust_volume_config delta q) \<and>
      volume (adjust_volume_config delta q) \<le> (if allow_volume_boost q then 200 else 100) \<and>
      allow_volume_boost (adjust_volume_config delta q) = allow_volume_boost q" for q
    by (simp add: adjust_volume_config_def Let_def)
  show ?thesis
    unfolding adjust_volume_stored
    using pure [of p] pure [of "load_config (addon_config w)"] by blast
qed

theorem adjust_volume_range_witness:
  "volume (adjust_volume_config 1000 (VolumeConfig_default\<lparr>volume := 90\<rparr>)) = 100 \<and>
   volume (adjust_volume_config 1000
             (VolumeConfig_default\<lparr>volume := 90, allow_volume_boost := True\<rparr>)) = 200 \<and>
   volume (adjust_volume_config (-1000) (VolumeConfig_default\<lparr>volume := 90\<rparr>)) = 0 \<and>
   volume (load_config (addon_config
     (adjust_volume 1000
        \<lparr>addon_config = PDict [(''volume'', PInt 90)],
         av_player_did_begin_playing = [], volume_shortcuts = [], players = []\<rparr>))) = 100"
proof -
  have e: "load_config (PDict [(''volume'', PInt 90)]) = VolumeConfig_default\<lparr>volume := 90\<rparr>"
    by (simp add: load_config_def dict_get_def Let_def load_shortcuts_def shortcut_value_def
        load_loudnorm_def VolumeConfig_default_def LoudnormConfig_default_def)
  show ?thesis
    using adjust_volume_range
        [of 1000 "VolumeConfig_default\<lparr>volume := 90\<rparr>"
            "\<lparr>addon_config = PDict [(''volume'', PInt 90)],
              av_player_did_begin_playing = [], volume_shortcuts = [], players = []\<rparr>"]
      adjust_volume_range
        [of 1000 "VolumeConfig_default\<lparr>volume := 90, allow_volume_boost := True\<rparr>"
            "\<lparr>addon_config = PDict [(''volume'', PInt 90)],
              av_player_did_begin_playing = [], volume_shortcuts = [], players = []\<rparr>"]
      adjust_volume_range
        [of "-1000" "VolumeConfig_default\<lparr>volume := 90\<rparr>"
            "\<lparr>addon_config = PDict [(''volume'', PInt 90)],
              av_player_did_begin_playing = [], volume_shortcuts = [], players = []\<rparr>"]
    by (simp add: adjust_volume_stored e adjust_volume_config_def Let_def
        VolumeConfig_default_def)
qed

text \<open>
  Claim C10: \<open>adjust_volume\<close> changes the fields \<open>volume\<close> and \<open>is_muted\<close> only. The dict
  it saves is the loaded configuration with these two fields replaced, so the playback
  speed, the loudnorm section and the six shortcuts read back from the store are the
  loaded ones.
\<close>

theorem adjust_volume_frame:
  "addon_config (adjust_volume delta w) =
     config_dict ((load_config (addon_config w))
       \<lparr>volume := volume (adjust_volume_config delta (load_config (addon_config w))),
        is_muted := is_muted (adjust_volume_config delta (load_config (addon_config w)))\<rparr>) \<and>
   playback_speed (load_config (addon_config (adjust_volume delta w))) =
     playback_speed (load_config (addon_config w)) \<and>
   loudnorm (load_config (addon_config (adjust_volume delta w))) =
     loudnorm (load_config (addon_config w)) \<and>
   mute_shortcut (load_config (addon_config (adjust_volume delta w))) =
     mute_shortcut (load_config (addon_config w)) \<and>
   settings_shortcut (load_config (addon_config (adjust_volume delta w))) =
     settings_shortcut (load_config (addon_config w)) \<and>
   volume_up_shortcut (load_config (addon_config (adjust_volume delta w))) =
     volume_up_shortcut (load_config (addon_config w)) \<and>
   volume_down_shortcut (load_config (addon_config (adjust_volume delta w))) =
     volume_down_shortcut (load_config (addon_config w)) \<and>
   speed_up_shortcut (load_config (addon_config (adjust_volume delta w))) =
     speed_up_shortcut (load_config (addon_config w)) \<and>
   speed_down_shortcut (load_config (addon_config (adjust_volume delta w))) =
     speed_down_shortcut (load_config (addon_config w))"
proof -
  let ?p = "load_config (addon_config w)"
  have "adjust_volume_config delta ?p =
          ?p\<lparr>volume := volume (adjust_volume_config delta ?p),
              is_muted := is_muted (adjust_volume_config delta ?p)\<rparr>"
    by (simp add: adjust_volume_config_def Let_def)
  then have "addon_config (adjust_volume delta w) =
          config_dict (?p\<lparr>volume := volume (adjust_volume_config delta ?p),
                           is_muted := is_muted (adjust_volume_config delta ?p)\<rparr>)"
    by (simp add: adjust_volume_def addon_config_save_config)
  then show ?thesis
    by (simp add: load_config_config_dict)
qed

theorem adjust_volume_frame_witness:
  "playback_speed
     (load_config (addon_config
        (adjust_volume 10
           \<lparr>addon_config =
               PDict [(''volume'', PInt 50), (''playback_speed'', PFloat (Finite 2)),
                      (''mute_shortcut'', PStr ''Ctrl+Alt+M'')],
            av_player_did_begin_playing = [], volume_shortcuts = [], players = []\<rparr>)))
     = Finite 2 \<and>
   mute_shortcut
     (load_config (addon_config
        (adjust_volume 10
           \<lparr>addon_config =
               PDict [(''volume'', PInt 50), (''playback_speed'', PFloat (Finite 2)),
                      (''mute_shortcut'', PStr ''Ctrl+Alt+M'')],
            av_player_did_begin_playing = [], volume_shortcuts = [], players = []\<rparr>)))
     = ''Ctrl+Alt+M''"
proof -
  have e: "load_config
             (PDict [(''volume'', PInt 50), (''playback_speed'', PFloat (Finite 2)),
                     (''mute_shortcut'', PStr ''Ctrl+Alt+M'')]) =
           VolumeConfig_default
             \<lparr>volume := 50, playback_speed := Finite 2, mute_shortcut := ''Ctrl+Alt+M''\<rparr>"
    by (simp add: load_config_def dict_get_def Let_def load_shortcuts_def shortcut_value_def
        load_loudnorm_def VolumeConfig_default_def LoudnormConfig_default_def)
  show ?thesis
    using adjust_volume_frame
      [of 10 "\<lparr>addon_config =
                 PDict [(''volume'', PInt 50), (''playback_speed'', PFloat (Finite 2)),
                        (''mute_shortcut'', PStr ''Ctrl+Alt+M'')],
              av_player_did_begin_playing = [], volume_shortcuts = [], players = []\<rparr>"]
    by (simp add: e load_config_config_dict VolumeConfig_default_def)
qed

text \<open>
  Claim C5: with a stored volume of 0, \<open>toggle_mute\<close> changes nothing: the store, and
  with it the mute flag, stays as it is. With a stored volume above 0 it saves the
  loaded configuration with the mute flag inverted.
\<close>

theorem toggle_mute_rule:
  "(volume (load_config (addon_config w)) = 0 \<longrightarrow> toggle_mute w = w) \<and>
   (0 < volume (load_config (addon_config w)) \<longrightarrow>
      addon_config (toggle_mute w) =
        config_dict ((load_config (addon_config w))
                       \<lparr>is_muted := \<not> is_muted (load_config (addon_config w))\<rparr>) \<and>
      load_config (addon_config (toggle_mute w)) =
        (load_config (addon_config w))\<lparr>is_muted := \<not> is_muted (load_config (addon_config w))\<rparr>)"
  by (simp add: toggle_mute_def Let_def addon_config_save_config load_config_config_dict)

theorem toggle_mute_rule_witness:
  "volume (load_config (PDict [(''volume'', PInt 0), (''is_muted'', PBool True)])) = 0 \<and>
   toggle_mute \<lparr>addon_config = PDict [(''volume'', PInt 0), (''is_muted'', PBool True)],
                av_player_did_begin_playing = [], volume_shortcuts = [], players = []\<rparr>
     = \<lparr>addon_config = PDict [(''volume'', PInt 0), (''is_muted'', PBool True)],
        av_player_did_begin_playing = [], volume_shortcuts = [], players = []\<rparr> \<and>
   0 < volume (load_config (PDict [(''volume'', PInt 50)])) \<and>
   is_muted (load_config (addon_config
     (toggle_mute \<lparr>addon_config = PDict [(''volume'', PInt 50)],
                   av_player_did_begin_playing = [], volume_shortcuts = [], players = []\<rparr>)))
     = True"
proof -
  have e0: "load_config (PDict [(''volume'', PInt 0), (''is_muted'', PBool True)]) =
              VolumeConfig_default\<lparr>volume := 0, is_muted := True\<rparr>"
    by (simp add: load_config_def dict_get_def Let_def load_shortcuts_def shortcut_value_def
        load_loudnorm_def VolumeConfig_default_def LoudnormConfig_default_def)
  have e1: "load_config (PDict [(''volume'', PInt 50)]) = VolumeConfig_default\<lparr>volume := 50\<rparr>"
    by (simp add: load_config_def dict_get_def Let_def load_shortcuts_def shortcut_value_def
        load_loudnorm_def VolumeConfig_default_def LoudnormConfig_default_def)
  show ?thesis
    using toggle_mute_rule
        [of "\<lparr>addon_config = PDict [(''volume'', PInt 0), (''is_muted'', PBool True)],
               av_player_did_begin_playing = [], volume_shortcuts = [], players = []\<rparr>"]
      toggle_mute_rule
        [of "\<lparr>addon_config = PDict [(''volume'', PInt 50)],
               av_player_did_begin_playing = [], volume_shortcuts = [], players = []\<rparr>"]
    by (simp add: e0 e1 load_config_config_dict VolumeConfig_default_def)
qed

text \<open>
  Claim C4: for a current speed on the step table, \<open>_get_nearest_speed\<close> returns, when
  increasing, the smallest step above the current speed and, when decreasing, the
  largest step below it; where there is no such step (at 2.0 when increasing, at 0.25
  when decreasing) it returns the current speed. In particular the step after 1.0 is
  1.1, 2.0 stays 2.0 when increasing and 0.25 stays 0.25 when decreasing.
\<close>

theorem get_nearest_speed_on_table:
  assumes "current \<in> set SPEED_STEPS"
  shows "(if \<exists>s\<in>set SPEED_STEPS. float_less current s
          then get_nearest_speed current True \<in> set SPEED_STEPS \<and>
               float_less current (get_nearest_speed current True) \<and>
               (\<forall>s\<in>set SPEED_STEPS. float_less current s \<longrightarrow>
                  \<not> float_less s (get_nearest_speed current True))
          else get_nearest_speed current True = current) \<and>
         (if \<exists>s\<in>set SPEED_STEPS. float_less s current
          then get_nearest_speed current False \<in> set SPEED_STEPS \<and>
               float_less (get_nearest_speed current False) current \<and>
               (\<forall>s\<in>set SPEED_STEPS. float_less s current \<longrightarrow>
                  \<not> float_less (get_nearest_speed current False) s)
          else get_nearest_speed current False = current) \<and>
         get_nearest_speed (Finite 1.0) True = Finite 1.1 \<and>
         get_nearest_speed (Finite 2.0) True = Finite 2.0 \<and>
         get_nearest_speed (Finite 0.25) False = Finite 0.25"
proof -
  have c: "current \<in> {Finite 0.25, Finite 0.5, Finite 0.6, Finite 0.7, Finite 0.8, Finite 0.9,
                       Finite 1.0, Finite 1.1, Finite 1.2, Finite 1.3, Finite 1.4, Finite 1.5,
                       Finite 1.75, Finite 2.0}"
    using assms by (simp add: SPEED_STEPS_def)
  have up: "(if \<exists>s\<in>set SPEED_STEPS. float_less current s
          then get_nearest_speed current True \<in> set SPEED_STEPS \<and>
               float_less current (get_nearest_speed current True) \<and>
               (\<forall>s\<in>set SPEED_STEPS. float_less current s \<longrightarrow>
                  \<not> float_less s (get_nearest_speed current True))
          else get_nearest_speed current True = current)"
    using c by (elim insertE emptyE; simp add: get_nearest_speed_def SPEED_STEPS_def)
  have down: "(if \<exists>s\<in>set SPEED_STEPS. float_less s current
          then get_nearest_speed current False \<in> set SPEED_STEPS \<and>
               float_less (get_nearest_speed current False) current \<and>
               (\<forall>s\<in>set SPEED_STEPS. float_less s current \<longrightarrow>
                  \<not> float_less (get_nearest_speed current False) s)
          else get_nearest_speed current False = current)"
    using c by (elim insertE emptyE; simp add: get_nearest_speed_def SPEED_STEPS_def)
  have ex: "get_nearest_speed (Finite 1.0) True = Finite 1.1 \<and>
         get_nearest_speed (Finite 2.0) True = Finite 2.0 \<and>
         get_nearest_speed (Finite 0.25) False = Finite 0.25"
    by (simp add: get_nearest_speed_def SPEED_STEPS_def)
  from up down ex show ?thesis by blast
qed

theorem get_nearest_speed_on_table_witness:
  "Finite 1.5 \<in> set SPEED_STEPS \<and>
   get_nearest_speed (Finite 1.5) True = Finite 1.75 \<and>
   get_nearest_speed (Finite 1.5) False = Finite 1.4 \<and>
   get_nearest_speed (Finite 2.0) True = Finite 2.0"
proof -
  have h: "Finite 1.5 \<in> set SPEED_STEPS" by (simp add: SPEED_STEPS_def)
  show ?thesis
    using h get_nearest_speed_on_table [OF h]
    by (simp add: get_nearest_speed_def SPEED_STEPS_def)
qed

section \<open>Properties of the hook\<close>

lemma did_begin_playing_audible:
  assumes "\<not> is_muted (load_config (addon_config w))"
    and "volume (load_config (addon_config w)) \<noteq> 0"
    and "did_begin_playing w (Some (MpvManager props)) = Some p"
  shows "get_property p ''speed'' = Some (PFloat (playback_speed (load_config (addon_config w))))"
  using assms by (auto simp: did_begin_playing_def Let_def set_property_def)

text \<open>In the muted branch no property other than \<open>volume\<close> and \<open>af\<close> is written.\<close>

lemma did_begin_playing_silent:
  assumes "is_muted (load_config (addon_config w)) \<or> volume (load_config (addon_config w)) = 0"
  shows "did_begin_playing w (Some (MpvManager props)) =
           Some (MpvManager (props(''volume'' \<mapsto> PInt 0, ''af'' \<mapsto> PStr [])))"
  using assms by (auto simp: did_begin_playing_def Let_def set_property_def)

text \<open>
  Claim C2: for every configuration, \<open>did_begin_playing\<close> sets the player's speed to
  the configured playback speed, also when the configuration is muted or its volume
  is 0. The code does not: with \<open>is_muted\<close> set and a playback speed of 2.0 stored, a
  player whose speed is 1.0 gets volume 0 and an empty filter, and its speed is still 1.0
  after the call.
\<close>

theorem did_begin_playing_muted_skips_speed:
  "playback_speed
     (load_config (PDict [(''is_muted'', PBool True), (''playback_speed'', PFloat (Finite 2))]))
     = Finite 2 \<and>
   did_begin_playing
     \<lparr>addon_config = PDict [(''is_muted'', PBool True), (''playback_speed'', PFloat (Finite 2))],
      av_player_did_begin_playing = [DidBeginPlaying], volume_shortcuts = [], players = []\<rparr>
     (Some (MpvManager [''speed'' \<mapsto> PFloat (Finite 1)]))
     = Some (MpvManager [''speed'' \<mapsto> PFloat (Finite 1), ''volume'' \<mapsto> PInt 0,
                         ''af'' \<mapsto> PStr []]) \<and>
   get_property
     (MpvManager [''speed'' \<mapsto> PFloat (Finite 1), ''volume'' \<mapsto> PInt 0, ''af'' \<mapsto> PStr []])
     ''speed'' = Some (PFloat (Finite 1))"
  by (simp add: did_begin_playing_def set_property_def load_config_def dict_get_def Let_def
      load_shortcuts_def shortcut_value_def load_loudnorm_def VolumeConfig_default_def
      LoudnormConfig_default_def)

section \<open>Properties of the dialog\<close>

subsection \<open>The chain of signals ends\<close>

lemma clamp_chain:
  fixes a b c d x :: int
  shows "max c (min d (max a (min b (max c (min d x))))) = max c (min d x) \<or>
         max a (min b (max c (min d (max a (min b (max c (min d x))))))) =
           max a (min b (max c (min d x)))"
  by (auto simp: max_def min_def)

lemma setValue_fields:
  "wvalue (setValue v x) = max (wminimum x) (min (wmaximum x) v)"
  "wminimum (setValue v x) = wminimum x"
  "wmaximum (setValue v x) = wmaximum x"
  by (simp_all add: setValue_def)

lemma value_changed_four:
  "value_changed (Suc (Suc (Suc (Suc n)))) t (s, b) =
   value_changed (Suc (Suc (Suc (Suc m)))) t (s, b)"
proof (cases t)
  case True
  define b1 where "b1 = setValue (wvalue s) b"
  define s1 where "s1 = setValue (wvalue b1) s"
  define b2 where "b2 = setValue (wvalue s1) b1"
  define s2 where "s2 = setValue (wvalue b2) s1"
  have key: "wvalue b2 = wvalue b1 \<or> wvalue s2 = wvalue s1"
    unfolding b1_def s1_def b2_def s2_def setValue_fields
    by (rule clamp_chain)
  have L: "value_changed (Suc (Suc (Suc (Suc k)))) True (s, b) =
        (if wvalue b1 = wvalue b then (s, b1)
         else if wvalue s1 = wvalue s then (s1, b1)
         else if wvalue b2 = wvalue b1 then (s1, b2)
         else if wvalue s2 = wvalue s1 then (s2, b2)
         else value_changed k True (s2, b2))" for k
    unfolding value_changed.simps Let_def b1_def s1_def b2_def s2_def by (rule refl)
  have "value_changed (Suc (Suc (Suc (Suc n)))) True (s, b) =
        value_changed (Suc (Suc (Suc (Suc m)))) True (s, b)"
    unfolding L using key by auto
  then show ?thesis using True by simp
next
  case False
  define s1 where "s1 = setValue (wvalue b) s"
  define b1 where "b1 = setValue (wvalue s1) b"
  define s2 where "s2 = setValue (wvalue b1) s1"
  define b2 where "b2 = setValue (wvalue s2) b1"
  have key: "wvalue s2 = wvalue s1 \<or> wvalue b2 = wvalue b1"
    unfolding b1_def s1_def b2_def s2_def setValue_fields
    by (rule clamp_chain)
  have L: "value_changed (Suc (Suc (Suc (Suc k)))) False (s, b) =
        (if wvalue s1 = wvalue s then (s1, b)
         else if wvalue b1 = wvalue b then (s1, b1)
         else if wvalue s2 = wvalue s1 then (s2, b1)
         else if wvalue b2 = wvalue b1 then (s2, b2)
         else value_changed k False (s2, b2))" for k
    unfolding value_changed.simps Let_def b1_def s1_def b2_def s2_def by (rule refl)
  have "value_changed (Suc (Suc (Suc (Suc n)))) False (s, b) =
        value_changed (Suc (Suc (Suc (Suc m)))) False (s, b)"
    unfolding L using key by auto
  then show ?thesis using False by simp
qed

text \<open>
  More deliveries than \<open>signal_fuel\<close> change nothing: within four deliveries a
  \<open>setValue\<close> leaves its widget's value as it is, and no further signal is emitted.
\<close>

lemma value_changed_fuel:
  "value_changed (signal_fuel + n) t p = value_changed signal_fuel t p"
  using value_changed_four [of n t "fst p" "snd p" 0]
  by (simp add: signal_fuel_def eval_nat_numeral)

lemma value_changed_ranges:
  "wminimum (fst (value_changed n t p)) = wminimum (fst p) \<and>
   wmaximum (fst (value_changed n t p)) = wmaximum (fst p) \<and>
   wminimum (snd (value_changed n t p)) = wminimum (snd p) \<and>
   wmaximum (snd (value_changed n t p)) = wmaximum (snd p)"
proof (induction n arbitrary: t p)
  case 0
  then show ?case by (cases p) simp
next
  case (Suc n)
  obtain s b where p: "p = (s, b)" by (cases p)
  show ?case
  proof (cases t)
    case True
    show ?thesis
      using Suc.IH [of False "(s, setValue (wvalue s) b)"]
      by (simp add: p True Let_def setValue_def)
  next
    case False
    show ?thesis
      using Suc.IH [of True "(setValue (wvalue b) s, b)"]
      by (simp add: p False Let_def setValue_def)
  qed
qed

subsection \<open>Switching the boost off\<close>

lemma slider_setMaximum_ranges:
  "wmaximum (fst (slider_setMaximum m p)) = m \<and>
   wminimum (fst (slider_setMaximum m p)) = min (wminimum (fst p)) m \<and>
   wminimum (snd (slider_setMaximum m p)) = wminimum (snd p) \<and>
   wmaximum (snd (slider_setMaximum m p)) = wmaximum (snd p)"
  by (cases "wvalue (setMaximum m (fst p)) = wvalue (fst p)")
     (simp_all add: slider_setMaximum_def Let_def value_changed_ranges,
      simp_all add: setMaximum_def Let_def)

lemma spin_box_setMaximum_ranges:
  "wmaximum (snd (spin_box_setMaximum m p)) = m \<and>
   wminimum (snd (spin_box_setMaximum m p)) = min (wminimum (snd p)) m \<and>
   wminimum (fst (spin_box_setMaximum m p)) = wminimum (fst p) \<and>
   wmaximum (fst (spin_box_setMaximum m p)) = wmaximum (fst p)"
  by (cases "wvalue (setMaximum m (snd p)) = wvalue (snd p)")
     (simp_all add: spin_box_setMaximum_def Let_def value_changed_ranges,
      simp_all add: setMaximum_def Let_def)

lemma range_to_100_after_setMaximum:
  "range_to_100 (fst (spin_box_setMaximum 100 (slider_setMaximum 100 p))) \<and>
   range_to_100 (snd (spin_box_setMaximum 100 (slider_setMaximum 100 p)))"
  by (simp add: range_to_100_def spin_box_setMaximum_ranges slider_setMaximum_ranges)

lemma slider_setValue_100:
  assumes "range_to_100 (fst p)" and "range_to_100 (snd p)"
  shows "wvalue (fst (slider_setValue 100 p)) = 100 \<and>
         range_to_100 (fst (slider_setValue 100 p)) \<and>
         range_to_100 (snd (slider_setValue 100 p))"
  using assms
  by (cases p)
     (simp add: range_to_100_def slider_setValue_def Let_def setValue_def signal_fuel_def
        eval_nat_numeral)

lemma spin_box_setValue_100:
  assumes "range_to_100 (fst p)" and "range_to_100 (snd p)" and "wvalue (fst p) = 100"
  shows "wvalue (fst (spin_box_setValue 100 p)) = 100 \<and>
         wvalue (snd (spin_box_setValue 100 p)) = 100"
  using assms
  by (cases p)
     (simp add: range_to_100_def spin_box_setValue_def Let_def setValue_def signal_fuel_def
        eval_nat_numeral)

lemma boost_off_high:
  assumes "100 < wvalue (volume_slider d)"
  shows "wvalue (volume_slider (on_volume_boost_changed 0 d)) = 100 \<and>
         wvalue (volume_spin_box (on_volume_boost_changed 0 d)) = 100"
proof -
  let ?p2 = "spin_box_setMaximum 100 (slider_setMaximum 100 (volume_slider d, volume_spin_box d))"
  have r: "range_to_100 (fst ?p2) \<and> range_to_100 (snd ?p2)"
    by (rule range_to_100_after_setMaximum)
  have s: "wvalue (fst (slider_setValue 100 ?p2)) = 100 \<and>
           range_to_100 (fst (slider_setValue 100 ?p2)) \<and>
           range_to_100 (snd (slider_setValue 100 ?p2))"
    using r by (simp add: slider_setValue_100)
  have "wvalue (fst (spin_box_setValue 100 (slider_setValue 100 ?p2))) = 100 \<and>
        wvalue (snd (spin_box_setValue 100 (slider_setValue 100 ?p2))) = 100"
    using s by (simp add: spin_box_setValue_100)
  then show ?thesis
    using assms by (simp add: on_volume_boost_changed_def Let_def)
qed

lemma boost_off_low:
  "volume_controls_ok d \<Longrightarrow> wvalue (volume_slider d) \<le> 100 \<Longrightarrow>
   wvalue (volume_slider (on_volume_boost_changed 0 d)) = wvalue (volume_slider d) \<and>
   wvalue (volume_spin_box (on_volume_boost_changed 0 d)) = wvalue (volume_slider d)"
  by (simp add: on_volume_boost_changed_def volume_controls_ok_def in_range_def
      slider_setMaximum_def spin_box_setMaximum_def setMaximum_def Let_def)

text \<open>
  The handler keeps the two volume controls in range and in step, for either state of
  the check box; the controls start so, both created with the range from 0 to 200 and
  the value 0.
\<close>

lemma boost_keeps_ok:
  assumes "volume_controls_ok d"
  shows "volume_controls_ok (on_volume_boost_changed state d)"
proof -
  obtain smn smx v where s: "volume_slider d = \<lparr>wminimum = smn, wmaximum = smx, wvalue = v\<rparr>"
    by (cases "volume_slider d") auto
  obtain bmn bmx bv where b: "volume_spin_box d = \<lparr>wminimum = bmn, wmaximum = bmx, wvalue = bv\<rparr>"
    by (cases "volume_spin_box d") auto
  have h: "smn \<le> v" "v \<le> smx" "bmn \<le> v" "v \<le> bmx" "bv = v"
    using assms by (simp_all add: volume_controls_ok_def in_range_def s b)
  define M :: int where "M = (if state \<noteq> 0 then 200 else 100)"
  consider "v \<le> M" | "M < v" "bmn \<le> M" | "M < v" "M < bmn" "bmn = v" | "M < v" "M < bmn" "bmn < v"
    using h by linarith
  then show ?thesis
  proof cases
    case 1
    then show ?thesis
      using h
      by (cases "state = 0")
         (simp_all add: M_def on_volume_boost_changed_def volume_controls_ok_def in_range_def s b
            slider_setMaximum_def spin_box_setMaximum_def setMaximum_def Let_def)
  next
    case 2
    then show ?thesis
      using h
      by (cases "state = 0")
         (simp_all add: M_def on_volume_boost_changed_def volume_controls_ok_def in_range_def s b
            slider_setMaximum_def spin_box_setMaximum_def slider_setValue_def
            spin_box_setValue_def setMaximum_def setValue_def Let_def signal_fuel_def
            eval_nat_numeral)
  next
    case 3
    then show ?thesis
      using h
      by (cases "state = 0")
         (simp_all add: M_def on_volume_boost_changed_def volume_controls_ok_def in_range_def s b
            slider_setMaximum_def spin_box_setMaximum_def slider_setValue_def
            spin_box_setValue_def setMaximum_def setValue_def Let_def signal_fuel_def
            eval_nat_numeral)
  next
    case 4
    then show ?thesis
      using h
      by (cases "state = 0")
         (simp_all add: M_def on_volume_boost_changed_def volume_controls_ok_def in_range_def s b
            slider_setMaximum_def spin_box_setMaximum_def slider_setValue_def
            spin_box_setValue_def setMaximum_def setValue_def Let_def signal_fuel_def
            eval_nat_numeral)
  qed
qed

text \<open>
  Claim C8: when the boost is switched off (\<open>state = 0\<close>) while the volume of the
  dialog is above 100, the handler itself brings the volume to 100, whatever the state
  of the dialog; a volume of 150 becomes 100. When the volume is at most 100, and the
  two volume controls are in range and show the same value (as Qt and the connected
  signals keep them), switching the boost off leaves the volume unchanged.
\<close>

theorem on_volume_boost_changed_clamps:
  "(100 < wvalue (volume_slider d) \<longrightarrow>
      wvalue (volume_slider (on_volume_boost_changed 0 d)) = 100 \<and>
      wvalue (volume_spin_box (on_volume_boost_changed 0 d)) = 100) \<and>
   (wvalue (volume_slider d) = 150 \<longrightarrow>
      wvalue (volume_slider (on_volume_boost_changed 0 d)) = 100) \<and>
   (volume_controls_ok d \<and> wvalue (volume_slider d) \<le> 100 \<longrightarrow>
      wvalue (volume_slider (on_volume_boost_changed 0 d)) = wvalue (volume_slider d) \<and>
      wvalue (volume_spin_box (on_volume_boost_changed 0 d)) = wvalue (volume_slider d))"
  using boost_off_high [of d] boost_off_low [of d] by simp

theorem on_volume_boost_changed_clamps_witness:
  "wvalue (volume_slider (on_volume_boost_changed 0
     \<lparr>current_session_boost_enabled = True,
      volume_slider = \<lparr>wminimum = 0, wmaximum = 200, wvalue = 150\<rparr>,
      volume_spin_box = \<lparr>wminimum = 0, wmaximum = 200, wvalue = 150\<rparr>,
      volume_boost_check_box = False, mute_check_box = False, loudnorm_group_box = False,
      i_spin_box = \<lparr>wminimum = -50, wmaximum = -14, wvalue = -24\<rparr>,
      dual_mono_check_box = False,
      speed_slider = \<lparr>wminimum = 25, wmaximum = 200, wvalue = 100\<rparr>,
      volume_up_shortcut_edit = [], volume_down_shortcut_edit = [],
      mute_shortcut_edit = [], settings_shortcut_edit = [],
      speed_up_shortcut_edit = [], speed_down_shortcut_edit = []\<rparr>)) = 100 \<and>
   volume_controls_ok
     \<lparr>current_session_boost_enabled = True,
      volume_slider = \<lparr>wminimum = 0, wmaximum = 200, wvalue = 80\<rparr>,
      volume_spin_box = \<lparr>wminimum = 0, wmaximum = 200, wvalue = 80\<rparr>,
      volume_boost_check_box = False, mute_check_box = False, loudnorm_group_box = False,
      i_spin_box = \<lparr>wminimum = -50, wmaximum = -14, wvalue = -24\<rparr>,
      dual_mono_check_box = False,
      speed_slider = \<lparr>wminimum = 25, wmaximum = 200, wvalue = 100\<rparr>,
      volume_up_shortcut_edit = [], volume_down_shortcut_edit = [],
      mute_shortcut_edit = [], settings_shortcut_edit = [],
      speed_up_shortcut_edit = [], speed_down_shortcut_edit = []\<rparr> \<and>
   wvalue (volume_slider (on_volume_boost_changed 0
     \<lparr>current_session_boost_enabled = True,
      volume_slider = \<lparr>wminimum = 0, wmaximum = 200, wvalue = 80\<rparr>,
      volume_spin_box = \<lparr>wminimum = 0, wmaximum = 200, wvalue = 80\<rparr>,
      volume_boost_check_box = False, mute_check_box = False, loudnorm_group_box = False,
      i_spin_box = \<lparr>wminimum = -50, wmaximum = -14, wvalue = -24\<rparr>,
      dual_mono_check_box = False,
      speed_slider = \<lparr>wminimum = 25, wmaximum = 200, wvalue = 100\<rparr>,
      volume_up_shortcut_edit = [], volume_down_shortcut_edit = [],
      mute_shortcut_edit = [], settings_shortcut_edit = [],
      speed_up_shortcut_edit = [], speed_down_shortcut_edit = []\<rparr>)) = 80"
  using on_volume_boost_changed_clamps
      [of "\<lparr>current_session_boost_enabled = True,
      volume_slider = \<lparr>wminimum = 0, wmaximum = 200, wvalue = 150\<rparr>,
      volume_spin_box = \<lparr>wminimum = 0, wmaximum = 200, wvalue = 150\<rparr>,
      volume_boost_check_box = False, mute_check_box = False, loudnorm_group_box = False,
      i_spin_box = \<lparr>wminimum = -50, wmaximum = -14, wvalue = -24\<rparr>,
      dual_mono_check_box = False,
      speed_slider = \<lparr>wminimum = 25, wmaximum = 200, wvalue = 100\<rparr>,
      volume_up_shortcut_edit = [], volume_down_shortcut_edit = [],
      mute_shortcut_edit = [], settings_shortcut_edit = [],
      speed_up_shortcut_edit = [], speed_down_shortcut_edit = []\<rparr>"]
    on_volume_boost_changed_clamps
      [of "\<lparr>current_session_boost_enabled = True,
      volume_slider = \<lparr>wminimum = 0, wmaximum = 200, wvalue = 80\<rparr>,
      volume_spin_box = \<lparr>wminimum = 0, wmaximum = 200, wvalue = 80\<rparr>,
      volume_boost_check_box = False, mute_check_box = False, loudnorm_group_box = False,
      i_spin_box = \<lparr>wminimum = -50, wmaximum = -14, wvalue = -24\<rparr>,
      dual_mono_check_box = False,
      speed_slider = \<lparr>wminimum = 25, wmaximum = 200, wvalue = 100\<rparr>,
      volume_up_shortcut_edit = [], volume_down_shortcut_edit = [],
      mute_shortcut_edit = [], settings_shortcut_edit = [],
      speed_up_shortcut_edit = [], speed_down_shortcut_edit = []\<rparr>"]
  by (simp add: volume_controls_ok_def in_range_def)

subsection \<open>Committing the dialog\<close>

lemma check_modifiers_iff:
  "check_modifiers ss = (\<forall>s\<in>set ss. s \<noteq> [] \<longrightarrow> has_modifier (hd s))"
  by (induction ss) (auto split: list.splits)

lemma check_duplicates_iff:
  "check_duplicates xs used = (distinct (key_strings xs) \<and> set (key_strings xs) \<inter> dom used = {})"
proof (induction xs arbitrary: used)
  case Nil
  then show ?case by (simp add: key_strings_def)
next
  case (Cons x xs)
  obtain name sequence where x: "x = (name, sequence)" by (cases x)
  show ?case
  proof (cases "isEmpty sequence")
    case True
    then show ?thesis using Cons.IH [of used] by (simp add: x key_strings_def)
  next
    case False
    have ks: "key_strings (x # xs) = toString sequence # key_strings xs"
      using False by (simp add: x key_strings_def)
    have step: "check_duplicates (x # xs) used =
                  (used (toString sequence) = None \<and>
                   check_duplicates xs (used(toString sequence \<mapsto> name)))"
      using False by (simp add: x Let_def)
    show ?thesis
      unfolding step ks Cons.IH by (auto simp: domIff)
  qed
qed

lemma key_strings_member:
  "(k \<in> set (key_strings xs)) = (\<exists>a\<in>set xs. \<not> isEmpty (snd a) \<and> toString (snd a) = k)"
  by (auto simp: key_strings_def)

lemma key_strings_collision:
  assumes "distinct (map fst xs)"
  shows "(\<not> distinct (key_strings xs)) =
         (\<exists>a\<in>set xs. \<exists>b\<in>set xs.
            fst a \<noteq> fst b \<and> \<not> isEmpty (snd a) \<and> \<not> isEmpty (snd b) \<and>
            toString (snd a) = toString (snd b))"
  using assms
proof (induction xs)
  case Nil
  then show ?case by (simp add: key_strings_def)
next
  case (Cons x xs)
  have "fst x \<notin> fst ` set xs" using Cons.prems by simp
  then have fresh: "\<And>a. a \<in> set xs \<Longrightarrow> fst a \<noteq> fst x" by (metis imageI)
  have IH: "(\<not> distinct (key_strings xs)) =
         (\<exists>a\<in>set xs. \<exists>b\<in>set xs.
            fst a \<noteq> fst b \<and> \<not> isEmpty (snd a) \<and> \<not> isEmpty (snd b) \<and>
            toString (snd a) = toString (snd b))"
    using Cons by simp
  show ?case
  proof (cases "isEmpty (snd x)")
    case True
    have "key_strings (x # xs) = key_strings xs"
      using True by (cases x) (simp add: key_strings_def)
    then show ?thesis using True IH by auto
  next
    case False
    have ks: "key_strings (x # xs) = toString (snd x) # key_strings xs"
      using False by (cases x) (simp add: key_strings_def)
    have "(\<not> distinct (key_strings (x # xs))) =
          (toString (snd x) \<in> set (key_strings xs) \<or> \<not> distinct (key_strings xs))"
      by (simp add: ks)
    also have "\<dots> =
          ((\<exists>a\<in>set xs. \<not> isEmpty (snd a) \<and> toString (snd a) = toString (snd x)) \<or>
           (\<exists>a\<in>set xs. \<exists>b\<in>set xs.
              fst a \<noteq> fst b \<and> \<not> isEmpty (snd a) \<and> \<not> isEmpty (snd b) \<and>
              toString (snd a) = toString (snd b)))"
      by (simp only: key_strings_member IH)
    also have "\<dots> =
          (\<exists>a\<in>set (x # xs). \<exists>b\<in>set (x # xs).
            fst a \<noteq> fst b \<and> \<not> isEmpty (snd a) \<and> \<not> isEmpty (snd b) \<and>
            toString (snd a) = toString (snd b))"
    proof -
      define P where "P a b = (fst a \<noteq> fst b \<and> \<not> isEmpty (snd a) \<and> \<not> isEmpty (snd b) \<and>
            toString (snd a) = toString (snd b))" for a b :: "string \<times> QKeySequence"
      have sym: "\<And>a b. P a b \<Longrightarrow> P b a" by (auto simp: P_def)
      have irr: "\<not> P x x" by (simp add: P_def)
      have Px: "\<And>a. a \<in> set xs \<Longrightarrow>
                  P a x = (\<not> isEmpty (snd a) \<and> toString (snd a) = toString (snd x))"
        using False fresh by (auto simp: P_def)
      have "((\<exists>a\<in>set xs. \<not> isEmpty (snd a) \<and> toString (snd a) = toString (snd x)) \<or>
             (\<exists>a\<in>set xs. \<exists>b\<in>set xs. P a b)) =
            (\<exists>a\<in>set (x # xs). \<exists>b\<in>set (x # xs). P a b)"
        unfolding list.set using sym irr Px by blast
      then show ?thesis unfolding P_def .
    qed
    finally show ?thesis .
  qed
qed

lemma combination_string_modifier:
  assumes "has_modifier kc"
  shows "combination_string kc \<noteq> [] \<and> \<not> is_space (hd (combination_string kc))"
proof -
  have "MetaModifier \<in> keyboardModifiers kc \<or> ControlModifier \<in> keyboardModifiers kc \<or>
        AltModifier \<in> keyboardModifiers kc \<or> ShiftModifier \<in> keyboardModifiers kc"
    using assms by (auto simp: has_modifier_def)
  then show ?thesis
    by (auto simp: combination_string_def is_space_def)
qed

lemma toString_hd:
  "sequence \<noteq> [] \<Longrightarrow> combination_string (hd sequence) \<noteq> [] \<Longrightarrow>
   toString sequence \<noteq> [] \<and> hd (toString sequence) = hd (combination_string (hd sequence))"
  by (cases sequence rule: toString.cases) auto

lemma toString_empty: "toString sequence \<noteq> [] \<Longrightarrow> \<not> isEmpty sequence"
  by (auto simp: isEmpty_def)

lemma register_shortcut_toString:
  assumes "sequence = [] \<or> has_modifier (hd sequence)"
  shows "register_shortcut (toString sequence) fn =
           (if isEmpty sequence then None else Some (toString sequence, fn))"
proof (cases "sequence = []")
  case True
  then show ?thesis by (simp add: register_shortcut_def isEmpty_def)
next
  case False
  then have m: "has_modifier (hd sequence)" using assms by simp
  have a: "toString sequence \<noteq> [] \<and> \<not> is_space (hd (toString sequence))"
    using False combination_string_modifier [OF m] toString_hd [of sequence] by simp
  then have "\<not> isspace (toString sequence)"
    by (cases "toString sequence") (auto simp: isspace_def)
  then show ?thesis using False a by (simp add: register_shortcut_def isEmpty_def)
qed

lemma map_filter_register:
  assumes "\<forall>a\<in>set xs. fst a = [] \<or> has_modifier (hd (fst a))"
  shows "List.map_filter (\<lambda>(key, fn). register_shortcut key fn)
           (map (\<lambda>a. (toString (fst a), snd a)) xs) =
         map (\<lambda>a. (toString (fst a), snd a)) (filter (\<lambda>a. \<not> isEmpty (fst a)) xs)"
  using assms
  by (induction xs) (simp_all add: List.map_filter_simps register_shortcut_toString)

lemma setup_shortcuts_idem: "setup_shortcuts (setup_shortcuts w) = setup_shortcuts w"
  by (simp add: setup_shortcuts_def Let_def)

lemma setup_shortcuts_save_config:
  "setup_shortcuts (save_config c w) = save_config c w"
  by (simp add: save_config_def setup_shortcuts_idem Let_def)

lemma save_config_world:
  "save_config c w =
     w\<lparr>addon_config := config_dict c,
        av_player_did_begin_playing :=
          remove1 DidBeginPlaying (av_player_did_begin_playing w) @ [DidBeginPlaying],
        volume_shortcuts :=
          List.map_filter (\<lambda>(key, fn). register_shortcut key fn)
            [(volume_up_shortcut c, AdjustVolume 10),
             (volume_down_shortcut c, AdjustVolume (-10)),
             (mute_shortcut c, ToggleMute),
             (settings_shortcut c, ShowVolumeDialog),
             (speed_up_shortcut c, AdjustSpeed 0.1),
             (speed_down_shortcut c, AdjustSpeed (-0.1))]\<rparr>"
proof -
  let ?w2 = "w\<lparr>addon_config := config_dict c,
        av_player_did_begin_playing :=
          remove1 DidBeginPlaying (av_player_did_begin_playing w) @ [DidBeginPlaying]\<rparr>"
  have "save_config c w = setup_shortcuts ?w2"
    by (simp add: save_config_def config_save_config_def Let_def)
  moreover have "load_config (addon_config ?w2) = c"
    by (simp add: load_config_config_dict)
  ultimately show ?thesis
    by (simp add: setup_shortcuts_def Let_def load_config_config_dict del: map_filter_simps)
qed

lemma edited_config_explicit:
  "edited_config d c =
     \<lparr>volume = wvalue (volume_slider d),
      is_muted = mute_check_box d,
      allow_volume_boost = volume_boost_check_box d,
      mute_shortcut = toString (mute_shortcut_edit d),
      settings_shortcut = toString (settings_shortcut_edit d),
      volume_up_shortcut = toString (volume_up_shortcut_edit d),
      volume_down_shortcut = toString (volume_down_shortcut_edit d),
      loudnorm = \<lparr>enabled = loudnorm_group_box d, i = wvalue (i_spin_box d),
                  dual_mono = dual_mono_check_box d\<rparr>,
      playback_speed = Finite (real_of_int (wvalue (speed_slider d)) / 100),
      speed_up_shortcut = toString (speed_up_shortcut_edit d),
      speed_down_shortcut = toString (speed_down_shortcut_edit d)\<rparr>"
  by (cases c, cases "loudnorm c") (simp add: edited_config_def)

text \<open>
  Claim C7: \<open>accept\<close> is all or nothing. If some shortcut that is not empty starts with
  a key combination without Ctrl, Alt, Shift or Meta, or two different editors hold
  the same key string (not the empty one), the call returns with the state of the host
  untouched: neither the stored configuration nor the live shortcuts change, and the
  dialog is not accepted. Only otherwise the configuration of the widgets is written to
  the store and the shortcuts are registered anew, one for each editor that is not
  empty.
\<close>

theorem accept_all_or_nothing:
  "accept d w =
     (if (\<exists>a\<in>set (shortcut_editors d). \<not> isEmpty (snd a) \<and> \<not> has_modifier (hd (snd a))) \<or>
         (\<exists>a\<in>set (shortcut_editors d). \<exists>b\<in>set (shortcut_editors d).
            fst a \<noteq> fst b \<and> toString (snd a) = toString (snd b) \<and> toString (snd a) \<noteq> [])
      then (w, False)
      else
        (w\<lparr>addon_config :=
              config_dict
                \<lparr>volume = wvalue (volume_slider d),
                 is_muted = mute_check_box d,
                 allow_volume_boost = volume_boost_check_box d,
                 mute_shortcut = toString (mute_shortcut_edit d),
                 settings_shortcut = toString (settings_shortcut_edit d),
                 volume_up_shortcut = toString (volume_up_shortcut_edit d),
                 volume_down_shortcut = toString (volume_down_shortcut_edit d),
                 loudnorm = \<lparr>enabled = loudnorm_group_box d, i = wvalue (i_spin_box d),
                             dual_mono = dual_mono_check_box d\<rparr>,
                 playback_speed = Finite (real_of_int (wvalue (speed_slider d)) / 100),
                 speed_up_shortcut = toString (speed_up_shortcut_edit d),
                 speed_down_shortcut = toString (speed_down_shortcut_edit d)\<rparr>,
            av_player_did_begin_playing :=
              remove1 DidBeginPlaying (av_player_did_begin_playing w) @ [DidBeginPlaying],
            volume_shortcuts :=
              map (\<lambda>a. (toString (fst a), snd a))
                (filter (\<lambda>a. \<not> isEmpty (fst a))
                   [(volume_up_shortcut_edit d, AdjustVolume 10),
                    (volume_down_shortcut_edit d, AdjustVolume (-10)),
                    (mute_shortcut_edit d, ToggleMute),
                    (settings_shortcut_edit d, ShowVolumeDialog),
                    (speed_up_shortcut_edit d, AdjustSpeed 0.1),
                    (speed_down_shortcut_edit d, AdjustSpeed (-0.1))])\<rparr>,
         True))"
proof -
  let ?E = "shortcut_editors d"
  let ?bad = "\<exists>a\<in>set ?E. \<not> isEmpty (snd a) \<and> \<not> has_modifier (hd (snd a))"
  let ?col = "\<exists>a\<in>set ?E. \<exists>b\<in>set ?E.
            fst a \<noteq> fst b \<and> toString (snd a) = toString (snd b) \<and> toString (snd a) \<noteq> []"
  have names: "distinct (map fst ?E)" by (simp add: shortcut_editors_def)
  have mods: "check_modifiers (map snd ?E) = (\<not> ?bad)"
    by (auto simp add: check_modifiers_iff isEmpty_def)
  have dups: "check_duplicates ?E Map.empty =
                (\<not> (\<exists>a\<in>set ?E. \<exists>b\<in>set ?E.
                      fst a \<noteq> fst b \<and> \<not> isEmpty (snd a) \<and> \<not> isEmpty (snd b) \<and>
                      toString (snd a) = toString (snd b)))"
    using key_strings_collision [OF names] by (simp only: check_duplicates_iff dom_empty Int_empty_right simp_thms) blast
  have nonempty: "\<And>a. \<not> ?bad \<Longrightarrow> a \<in> set ?E \<Longrightarrow> \<not> isEmpty (snd a) \<Longrightarrow> toString (snd a) \<noteq> []"
  proof -
    fix a assume "\<not> ?bad" and "a \<in> set ?E" and ne: "\<not> isEmpty (snd a)"
    then have "has_modifier (hd (snd a))" by blast
    then show "toString (snd a) \<noteq> []"
      using ne combination_string_modifier toString_hd [of "snd a"] by (simp add: isEmpty_def)
  qed
  have col: "\<not> ?bad \<Longrightarrow> check_duplicates ?E Map.empty = (\<not> ?col)"
    unfolding dups using nonempty toString_empty by (metis (no_types, lifting))
  show ?thesis
  proof (cases "?bad")
    case True
    then show ?thesis using mods by (simp add: accept_def)
  next
    case False
    note ok = False
    show ?thesis
    proof (cases "?col")
      case True
      then show ?thesis using ok mods col by (simp add: accept_def)
    next
      case False
      have each: "\<forall>a\<in>set [(volume_up_shortcut_edit d, AdjustVolume 10),
                    (volume_down_shortcut_edit d, AdjustVolume (-10)),
                    (mute_shortcut_edit d, ToggleMute),
                    (settings_shortcut_edit d, ShowVolumeDialog),
                    (speed_up_shortcut_edit d, AdjustSpeed 0.1),
                    (speed_down_shortcut_edit d, AdjustSpeed (-0.1))].
                 fst a = [] \<or> has_modifier (hd (fst a))"
        using ok by (simp add: shortcut_editors_def isEmpty_def)
      have regs: "List.map_filter (\<lambda>(key, fn). register_shortcut key fn)
            [(toString (volume_up_shortcut_edit d), AdjustVolume 10),
             (toString (volume_down_shortcut_edit d), AdjustVolume (-10)),
             (toString (mute_shortcut_edit d), ToggleMute),
             (toString (settings_shortcut_edit d), ShowVolumeDialog),
             (toString (speed_up_shortcut_edit d), AdjustSpeed 0.1),
             (toString (speed_down_shortcut_edit d), AdjustSpeed (-0.1))] =
           map (\<lambda>a. (toString (fst a), snd a))
                (filter (\<lambda>a. \<not> isEmpty (fst a))
                   [(volume_up_shortcut_edit d, AdjustVolume 10),
                    (volume_down_shortcut_edit d, AdjustVolume (-10)),
                    (mute_shortcut_edit d, ToggleMute),
                    (settings_shortcut_edit d, ShowVolumeDialog),
                    (speed_up_shortcut_edit d, AdjustSpeed 0.1),
                    (speed_down_shortcut_edit d, AdjustSpeed (-0.1))])"
        using map_filter_register [OF each] by simp
      have acc: "accept d w =
                   (save_config (edited_config d (load_config (addon_config w))) w, True)"
        using ok False mods col
        by (simp add: accept_def Let_def setup_shortcuts_save_config)
      show ?thesis
        using ok False
        unfolding acc edited_config_explicit save_config_world
        by (simp add: regs del: map_filter_simps)
    qed
  qed
qed

theorem accept_all_or_nothing_witness:
  "accept
     \<lparr>current_session_boost_enabled = False,
      volume_slider = \<lparr>wminimum = 0, wmaximum = 100, wvalue = 80\<rparr>,
      volume_spin_box = \<lparr>wminimum = 0, wmaximum = 100, wvalue = 80\<rparr>,
      volume_boost_check_box = False, mute_check_box = False, loudnorm_group_box = False,
      i_spin_box = \<lparr>wminimum = -50, wmaximum = -14, wvalue = -24\<rparr>,
      dual_mono_check_box = False,
      speed_slider = \<lparr>wminimum = 25, wmaximum = 200, wvalue = 100\<rparr>,
      volume_up_shortcut_edit = [\<lparr>keyboardModifiers = {ControlModifier}, key_name = ''M''\<rparr>],
      volume_down_shortcut_edit = [],
      mute_shortcut_edit = [\<lparr>keyboardModifiers = {ControlModifier}, key_name = ''M''\<rparr>],
      settings_shortcut_edit = [],
      speed_up_shortcut_edit = [], speed_down_shortcut_edit = []\<rparr>
     \<lparr>addon_config = PDict [(''volume'', PInt 50)], av_player_did_begin_playing = [],
      volume_shortcuts = [(''Ctrl+Alt+V'', ShowVolumeDialog)], players = []\<rparr>
   = (\<lparr>addon_config = PDict [(''volume'', PInt 50)], av_player_did_begin_playing = [],
      volume_shortcuts = [(''Ctrl+Alt+V'', ShowVolumeDialog)], players = []\<rparr>, False) \<and>
   accept
     \<lparr>current_session_boost_enabled = False,
      volume_slider = \<lparr>wminimum = 0, wmaximum = 100, wvalue = 80\<rparr>,
      volume_spin_box = \<lparr>wminimum = 0, wmaximum = 100, wvalue = 80\<rparr>,
      volume_boost_check_box = False, mute_check_box = False, loudnorm_group_box = False,
      i_spin_box = \<lparr>wminimum = -50, wmaximum = -14, wvalue = -24\<rparr>,
      dual_mono_check_box = False,
      speed_slider = \<lparr>wminimum = 25, wmaximum = 200, wvalue = 100\<rparr>,
      volume_up_shortcut_edit = [\<lparr>keyboardModifiers = {}, key_name = ''A''\<rparr>],
      volume_down_shortcut_edit = [],
      mute_shortcut_edit = [],
      settings_shortcut_edit = [],
      speed_up_shortcut_edit = [], speed_down_shortcut_edit = []\<rparr>
     \<lparr>addon_config = PDict [(''volume'', PInt 50)], av_player_did_begin_playing = [],
      volume_shortcuts = [(''Ctrl+Alt+V'', ShowVolumeDialog)], players = []\<rparr>
   = (\<lparr>addon_config = PDict [(''volume'', PInt 50)], av_player_did_begin_playing = [],
      volume_shortcuts = [(''Ctrl+Alt+V'', ShowVolumeDialog)], players = []\<rparr>, False) \<and>
   snd (accept
     \<lparr>current_session_boost_enabled = False,
      volume_slider = \<lparr>wminimum = 0, wmaximum = 100, wvalue = 80\<rparr>,
      volume_spin_box = \<lparr>wminimum = 0, wmaximum = 100, wvalue = 80\<rparr>,
      volume_boost_check_box = False, mute_check_box = False, loudnorm_group_box = False,
      i_spin_box = \<lparr>wminimum = -50, wmaximum = -14, wvalue = -24\<rparr>,
      dual_mono_check_box = False,
      speed_slider = \<lparr>wminimum = 25, wmaximum = 200, wvalue = 100\<rparr>,
      volume_up_shortcut_edit = [\<lparr>keyboardModifiers = {ControlModifier, AltModifier}, key_name = ''Up''\<rparr>],
      volume_down_shortcut_edit = [],
      mute_shortcut_edit = [\<lparr>keyboardModifiers = {ControlModifier, AltModifier}, key_name = ''M''\<rparr>],
      settings_shortcut_edit = [],
      speed_up_shortcut_edit = [], speed_down_shortcut_edit = []\<rparr>
     \<lparr>addon_config = PDict [(''volume'', PInt 50)], av_player_did_begin_playing = [],
      volume_shortcuts = [(''Ctrl+Alt+V'', ShowVolumeDialog)], players = []\<rparr>) = True \<and>
   volume_shortcuts (fst (accept
     \<lparr>current_session_boost_enabled = False,
      volume_slider = \<lparr>wminimum = 0, wmaximum = 100, wvalue = 80\<rparr>,
      volume_spin_box = \<lparr>wminimum = 0, wmaximum = 100, wvalue = 80\<rparr>,
      volume_boost_check_box = False, mute_check_box = False, loudnorm_group_box = False,
      i_spin_box = \<lparr>wminimum = -50, wmaximum = -14, wvalue = -24\<rparr>,
      dual_mono_check_box = False,
      speed_slider = \<lparr>wminimum = 25, wmaximum = 200, wvalue = 100\<rparr>,
      volume_up_shortcut_edit = [\<lparr>keyboardModifiers = {ControlModifier, AltModifier}, key_name = ''Up''\<rparr>],
      volume_down_shortcut_edit = [],
      mute_shortcut_edit = [\<lparr>keyboardModifiers = {ControlModifier, AltModifier}, key_name = ''M''\<rparr>],
      settings_shortcut_edit = [],
      speed_up_shortcut_edit = [], speed_down_shortcut_edit = []\<rparr>
     \<lparr>addon_config = PDict [(''volume'', PInt 50)], av_player_did_begin_playing = [],
      volume_shortcuts = [(''Ctrl+Alt+V'', ShowVolumeDialog)], players = []\<rparr>))
   = [(''Ctrl+Alt+Up'', AdjustVolume 10), (''Ctrl+Alt+M'', ToggleMute)] \<and>
   volume (load_config (addon_config (fst (accept
     \<lparr>current_session_boost_enabled = False,
      volume_slider = \<lparr>wminimum = 0, wmaximum = 100, wvalue = 80\<rparr>,
      volume_spin_box = \<lparr>wminimum = 0, wmaximum = 100, wvalue = 80\<rparr>,
      volume_boost_check_box = False, mute_check_box = False, loudnorm_group_box = False,
      i_spin_box = \<lparr>wminimum = -50, wmaximum = -14, wvalue = -24\<rparr>,
      dual_mono_check_box = False,
      speed_slider = \<lparr>wminimum = 25, wmaximum = 200, wvalue = 100\<rparr>,
      volume_up_shortcut_edit = [\<lparr>keyboardModifiers = {ControlModifier, AltModifier}, key_name = ''Up''\<rparr>],
      volume_down_shortcut_edit = [],
      mute_shortcut_edit = [\<lparr>keyboardModifiers = {ControlModifier, AltModifier}, key_name = ''M''\<rparr>],
      settings_shortcut_edit = [],
      speed_up_shortcut_edit = [], speed_down_shortcut_edit = []\<rparr>
     \<lparr>addon_config = PDict [(''volume'', PInt 50)], av_player_did_begin_playing = [],
      volume_shortcuts = [(''Ctrl+Alt+V'', ShowVolumeDialog)], players = []\<rparr>)))) = 80"
  using accept_all_or_nothing
      [of "\<lparr>current_session_boost_enabled = False,
      volume_slider = \<lparr>wminimum = 0, wmaximum = 100, wvalue = 80\<rparr>,
      volume_spin_box = \<lparr>wminimum = 0, wmaximum = 100, wvalue = 80\<rparr>,
      volume_boost_check_box = False, mute_check_box = False, loudnorm_group_box = False,
      i_spin_box = \<lparr>wminimum = -50, wmaximum = -14, wvalue = -24\<rparr>,
      dual_mono_check_box = False,
      speed_slider = \<lparr>wminimum = 25, wmaximum = 200, wvalue = 100\<rparr>,
      volume_up_shortcut_edit = [\<lparr>keyboardModifiers = {ControlModifier}, key_name = ''M''\<rparr>],
      volume_down_shortcut_edit = [],
      mute_shortcut_edit = [\<lparr>keyboardModifiers = {ControlModifier}, key_name = ''M''\<rparr>],
      settings_shortcut_edit = [],
      speed_up_shortcut_edit = [], speed_down_shortcut_edit = []\<rparr>"
          "\<lparr>addon_config = PDict [(''volume'', PInt 50)], av_player_did_begin_playing = [],
      volume_shortcuts = [(''Ctrl+Alt+V'', ShowVolumeDialog)], players = []\<rparr>"]
    accept_all_or_nothing
      [of "\<lparr>current_session_boost_enabled = False,
      volume_slider = \<lparr>wminimum = 0, wmaximum = 100, wvalue = 80\<rparr>,
      volume_spin_box = \<lparr>wminimum = 0, wmaximum = 100, wvalue = 80\<rparr>,
      volume_boost_check_box = False, mute_check_box = False, loudnorm_group_box = False,
      i_spin_box = \<lparr>wminimum = -50, wmaximum = -14, wvalue = -24\<rparr>,
      dual_mono_check_box = False,
      speed_slider = \<lparr>wminimum = 25, wmaximum = 200, wvalue = 100\<rparr>,
      volume_up_shortcut_edit = [\<lparr>keyboardModifiers = {}, key_name = ''A''\<rparr>],
      volume_down_shortcut_edit = [],
      mute_shortcut_edit = [],
      settings_shortcut_edit = [],
      speed_up_shortcut_edit = [], speed_down_shortcut_edit = []\<rparr>"
          "\<lparr>addon_config = PDict [(''volume'', PInt 50)], av_player_did_begin_playing = [],
      volume_shortcuts = [(''Ctrl+Alt+V'', ShowVolumeDialog)], players = []\<rparr>"]
    accept_all_or_nothing
      [of "\<lparr>current_session_boost_enabled = False,
      volume_slider = \<lparr>wminimum = 0, wmaximum = 100, wvalue = 80\<rparr>,
      volume_spin_box = \<lparr>wminimum = 0, wmaximum = 100, wvalue = 80\<rparr>,
      volume_boost_check_box = False, mute_check_box = False, loudnorm_group_box = False,
      i_spin_box = \<lparr>wminimum = -50, wmaximum = -14, wvalue = -24\<rparr>,
      dual_mono_check_box = False,
      speed_slider = \<lparr>wminimum = 25, wmaximum = 200, wvalue = 100\<rparr>,
      volume_up_shortcut_edit = [\<lparr>keyboardModifiers = {ControlModifier, AltModifier}, key_name = ''Up''\<rparr>],
      volume_down_shortcut_edit = [],
      mute_shortcut_edit = [\<lparr>keyboardModifiers = {ControlModifier, AltModifier}, key_name = ''M''\<rparr>],
      settings_shortcut_edit = [],
      speed_up_shortcut_edit = [], speed_down_shortcut_edit = []\<rparr>"
          "\<lparr>addon_config = PDict [(''volume'', PInt 50)], av_player_did_begin_playing = [],
      volume_shortcuts = [(''Ctrl+Alt+V'', ShowVolumeDialog)], players = []\<rparr>"]
  by (simp add: shortcut_editors_def isEmpty_def has_modifier_def combination_string_def
      load_config_config_dict)

end
